theory Spec2Isabelle
  imports Main "HOL-Library.Word"
begin

section \<open>JavaScript values used by the handlers\<close>

text \<open>
  A JavaScript string is a sequence of UTF-16 code units; \<open>length\<close> counts code units,
  as \<^verbatim>\<open>String.prototype.length\<close> does. Literals of the source are written
  \<open>lit ''...''\<close>.
\<close>

type_synonym jschar = "16 word"
type_synonym jsstring = "jschar list"

definition lit :: "string \<Rightarrow> jsstring" where
  "lit s = map of_char s"

text \<open>
  The characters removed by \<^verbatim>\<open>String.prototype.trim\<close> and matched by the regular
  expression \<^verbatim>\<open>/\s/\<close>: ECMAScript's WhiteSpace and LineTerminator code points
  (TAB, LF, VT, FF, CR, SP, NBSP, U+1680, U+2000..U+200A, U+2028, U+2029, U+202F, U+205F,
  U+3000, U+FEFF).
\<close>

definition is_ws :: "jschar \<Rightarrow> bool" where
  "is_ws c \<longleftrightarrow>
     c = 0x9 \<or> c = 0xA \<or> c = 0xB \<or> c = 0xC \<or> c = 0xD \<or> c = 0x20 \<or> c = 0xA0 \<or>
     c = 0x1680 \<or> (0x2000 \<le> c \<and> c \<le> 0x200A) \<or> c = 0x2028 \<or> c = 0x2029 \<or>
     c = 0x202F \<or> c = 0x205F \<or> c = 0x3000 \<or> c = 0xFEFF"

definition trim :: "jsstring \<Rightarrow> jsstring" where
  "trim s = rev (dropWhile is_ws (rev (dropWhile is_ws s)))"

text \<open>\<^verbatim>\<open>/\s/.test(s)\<close>\<close>

definition has_ws :: "jsstring \<Rightarrow> bool" where
  "has_ws s = list_ex is_ws s"

text \<open>\<^verbatim>\<open>s.startsWith(p)\<close>\<close>

definition startsWith :: "jsstring \<Rightarrow> jsstring \<Rightarrow> bool" where
  "startsWith s p = (take (length p) s = p)"

text \<open>
  A field read from a JSON body or from a row is \<open>None\<close> when it is \<^verbatim>\<open>null\<close> or
  \<^verbatim>\<open>undefined\<close>, and \<open>Some s\<close> when it is a value whose \<^verbatim>\<open>String(...)\<close> is
  \<open>s\<close>. \<open>String_or_empty v\<close> is \<^verbatim>\<open>String(v ?? "")\<close>; \<open>truthy v\<close> is the test
  \<^verbatim>\<open>if (v)\<close> on such a field; \<open>trimmed v\<close> is \<^verbatim>\<open>String(v ?? "").trim()\<close> and
  \<open>trimmed_or_null v\<close> is \<^verbatim>\<open>String(v ?? "").trim() || null\<close>.
\<close>

definition String_or_empty :: "jsstring option \<Rightarrow> jsstring" where
  "String_or_empty v = (case v of None \<Rightarrow> [] | Some s \<Rightarrow> s)"

definition truthy :: "jsstring option \<Rightarrow> bool" where
  "truthy v = (case v of None \<Rightarrow> False | Some s \<Rightarrow> s \<noteq> [])"

definition trimmed :: "jsstring option \<Rightarrow> jsstring" where
  "trimmed v = trim (String_or_empty v)"

definition trimmed_or_null :: "jsstring option \<Rightarrow> jsstring option" where
  "trimmed_or_null v = (let s = trimmed v in if s = [] then None else Some s)"

text \<open>
  A thrown value, or the \<^verbatim>\<open>error\<close> object a store query reports: whether it is an
  instance of \<^verbatim>\<open>Error\<close>, its \<^verbatim>\<open>message\<close> property, and its rendering by
  \<^verbatim>\<open>String(e)\<close>.
\<close>

datatype thrown = Thrown (instance_of_Error: bool) (message: jsstring) (to_String: jsstring)

text \<open>\<^verbatim>\<open>new Error(m)\<close>\<close>

definition new_Error :: "jsstring \<Rightarrow> thrown" where
  "new_Error m = Thrown True m (lit ''Error: '' @ m)"

text \<open>The catch blocks: \<^verbatim>\<open>e instanceof Error ? e.message : String(e)\<close>\<close>

definition caught_message :: "thrown \<Rightarrow> jsstring" where
  "caught_message e = (if instance_of_Error e then message e else to_String e)"

section \<open>sha512Hex\<close>

text \<open>
  \<^verbatim>\<open>crypto.subtle.digest("SHA-512", new TextEncoder().encode(input))\<close> is a primitive
  of the platform; it is the parameter \<open>digest\<close>, from the input string to the bytes of the
  hash. The loop that renders the bytes is the source's.
\<close>

definition hex_digit :: "nat \<Rightarrow> jschar" where
  "hex_digit n = lit ''0123456789abcdef'' ! n"

text \<open>\<^verbatim>\<open>b.toString(16)\<close> for a byte\<close>

definition toString16 :: "8 word \<Rightarrow> jsstring" where
  "toString16 b =
     (if unat b < 16 then [hex_digit (unat b)]
      else [hex_digit (unat b div 16), hex_digit (unat b mod 16)])"

text \<open>\<^verbatim>\<open>s.padStart(2, "0")\<close>\<close>

definition padStart2 :: "jsstring \<Rightarrow> jsstring" where
  "padStart2 s = replicate (2 - length s) (of_char CHR ''0'') @ s"

definition sha512Hex :: "(jsstring \<Rightarrow> 8 word list) \<Rightarrow> jsstring \<Rightarrow> jsstring" where
  "sha512Hex digest input =
     foldl (\<lambda>out b. out @ padStart2 (toString16 b)) [] (digest input)"

section \<open>Date arithmetic\<close>

text \<open>
  A \<^verbatim>\<open>Date\<close> holds a time value, the milliseconds since the epoch, or is invalid
  (\<open>None\<close>, the time value NaN). The functions are those of ECMA-262 (Day,
  TimeWithinDay, YearFromTime, MonthFromTime, DateFromTime, MakeDay, MakeDate, TimeClip)
  on the proleptic Gregorian calendar; months count from 0. A timestamp stored in a row
  is the ISO string \<^verbatim>\<open>toISOString\<close> returns, represented by the time value it denotes.
\<close>

type_synonym date = "int option"
type_synonym timestamp = int

definition msPerDay :: int where
  "msPerDay = 86400000"

definition Day :: "int \<Rightarrow> int" where
  "Day t = t div msPerDay"

definition TimeWithinDay :: "int \<Rightarrow> int" where
  "TimeWithinDay t = t mod msPerDay"

text \<open>The civil date (year, month from 0, day of the month) of a day number.\<close>

definition civil_from_days :: "int \<Rightarrow> int \<times> int \<times> int" where
  "civil_from_days z0 =
     (let z = z0 + 719468;
          era = z div 146097;
          doe = z - era * 146097;
          yoe = (doe - doe div 1460 + doe div 36524 - doe div 146096) div 365;
          doy = doe - (365 * yoe + yoe div 4 - yoe div 100);
          mp = (5 * doy + 2) div 153;
          d = doy - (153 * mp + 2) div 5 + 1;
          m = (if mp < 10 then mp + 2 else mp - 10);
          y = yoe + era * 400 + (if m \<le> 1 then 1 else 0)
      in (y, m, d))"

text \<open>The day number of a civil date (month from 0, in 0..11).\<close>

definition days_from_civil :: "int \<Rightarrow> int \<Rightarrow> int \<Rightarrow> int" where
  "days_from_civil y0 m d =
     (let y = (if m \<le> 1 then y0 - 1 else y0);
          era = y div 400;
          yoe = y - era * 400;
          doy = (153 * (if m > 1 then m - 2 else m + 10) + 2) div 5 + d - 1;
          doe = yoe * 365 + yoe div 4 - yoe div 100 + doy
      in era * 146097 + doe - 719468)"

definition YearFromTime :: "int \<Rightarrow> int" where
  "YearFromTime t = fst (civil_from_days (Day t))"

definition MonthFromTime :: "int \<Rightarrow> int" where
  "MonthFromTime t = fst (snd (civil_from_days (Day t)))"

definition DateFromTime :: "int \<Rightarrow> int" where
  "DateFromTime t = snd (snd (civil_from_days (Day t)))"

definition MakeDay :: "int \<Rightarrow> int \<Rightarrow> int \<Rightarrow> int" where
  "MakeDay year month dt =
     (let ym = year + month div 12; mn = month mod 12
      in days_from_civil ym mn 1 + dt - 1)"

definition MakeDate :: "int \<Rightarrow> int \<Rightarrow> int" where
  "MakeDate day time = day * msPerDay + time"

definition TimeClip :: "int \<Rightarrow> date" where
  "TimeClip t = (if \<bar>t\<bar> > 8640000000000000 then None else Some t)"

text \<open>\<^verbatim>\<open>d.setUTCMonth(month)\<close>: the date \<open>d\<close> holds afterwards\<close>

definition setUTCMonth :: "date \<Rightarrow> int \<Rightarrow> date" where
  "setUTCMonth d month =
     (case d of
        None \<Rightarrow> None
      | Some t \<Rightarrow>
          TimeClip (MakeDate (MakeDay (YearFromTime t) month (DateFromTime t)) (TimeWithinDay t)))"

text \<open>\<^verbatim>\<open>d.toISOString()\<close> throws a RangeError on an invalid date.\<close>

definition invalid_time_value :: thrown where
  "invalid_time_value =
     Thrown True (lit ''Invalid time value'') (lit ''RangeError: Invalid time value'')"

definition toISOString :: "date \<Rightarrow> thrown + timestamp" where
  "toISOString d = (case d of None \<Rightarrow> Inl invalid_time_value | Some t \<Rightarrow> Inr t)"

definition addMonthsIso :: "date \<Rightarrow> int \<Rightarrow> thrown + timestamp" where
  "addMonthsIso date months =
     (let d = date
      in toISOString
           (case d of None \<Rightarrow> None | Some t \<Rightarrow> setUTCMonth d (MonthFromTime t + months)))"

section \<open>The hosted table store\<close>

text \<open>
  The rows of the tables the handlers touch, with the columns they read or write (any
  other column of a row is left as it is by every operation below). The store is
  external: a request to it answers \<^verbatim>\<open>{ data, error }\<close>.
\<close>

datatype table =
  Integration_secrets | Orders | Domain_pricing_settings | User_packages | Profiles | User_roles

record secret_row =
  s_provider :: jsstring
  s_name :: jsstring
  s_ciphertext :: "jsstring option"
  s_iv :: "jsstring option"
  s_updated_at :: "jsstring option"

record order_row =
  o_id :: jsstring
  o_midtrans_order_id :: "jsstring option"
  o_user_id :: "jsstring option"
  o_subscription_years :: "int option"
  o_payment_env :: "jsstring option"
  o_midtrans_transaction_status :: "jsstring option"
  o_midtrans_fraud_status :: "jsstring option"
  o_midtrans_payment_type :: "jsstring option"
  o_midtrans_transaction_id :: "jsstring option"
  o_status :: jsstring

record pricing_row =
  p_id :: bool
  p_default_package_id :: "jsstring option"

record user_package_row =
  up_user_id :: jsstring
  up_package_id :: jsstring
  up_duration_months :: int
  up_started_at :: timestamp
  up_activated_at :: timestamp
  up_expires_at :: timestamp
  up_status :: jsstring

record profile_row =
  pr_id :: jsstring
  pr_account_status :: jsstring
  pr_payment_active :: bool
  pr_updated_at :: timestamp

record role_row =
  r_user_id :: jsstring
  r_role :: jsstring

record store =
  integration_secrets :: "secret_row list"
  orders :: "order_row list"
  domain_pricing_settings :: "pricing_row list"
  user_packages :: "user_package_row list"
  profiles :: "profile_row list"
  user_roles :: "role_row list"

text \<open>
  What a handler run is given besides the request and the store: the environment
  variables, the clock (\<^verbatim>\<open>new Date()\<close>), the platform's digest, the outcome of
  \<^verbatim>\<open>auth.getClaims(token)\<close>, and the failures of the store. \<open>fault t = Some err\<close>
  means that the store refuses the requests on table \<open>t\<close>: a request answers with the
  error \<open>err\<close> and changes nothing, whether the handler inspects the reply or
  discards it; \<open>multi_row_error\<close> is the error \<^verbatim>\<open>maybeSingle()\<close> reports
  when several rows match. The update of \<open>orders\<close> is only sent once the lookup on the
  same table has answered, so it is modelled by its effect.
\<close>

datatype claims_result = Claims_error | Claims (sub: "jsstring option")

record env =
  SUPABASE_URL :: "jsstring option"
  SUPABASE_ANON_KEY :: "jsstring option"
  SUPABASE_SERVICE_ROLE_KEY :: "jsstring option"
  now :: int
  digest :: "jsstring \<Rightarrow> 8 word list"
  getClaims :: "jsstring \<Rightarrow> claims_result"
  fault :: "table \<Rightarrow> thrown option"
  multi_row_error :: thrown

text \<open>
  \<^verbatim>\<open>.maybeSingle()\<close> on the rows a select matched: no row is \<^verbatim>\<open>data: null\<close>, one
  row is that row, several rows are an error.
\<close>

definition maybeSingle :: "env \<Rightarrow> table \<Rightarrow> 'a list \<Rightarrow> thrown + 'a option" where
  "maybeSingle e t rows =
     (case fault e t of
        Some err \<Rightarrow> Inl err
      | None \<Rightarrow>
          (case rows of
             [] \<Rightarrow> Inr None
           | [r] \<Rightarrow> Inr (Some r)
           | _ \<Rightarrow> Inl (multi_row_error e)))"

section \<open>Requests and responses\<close>

record 'b request =
  req_method :: jsstring
  req_authorization :: "jsstring option"
  req_json :: "thrown + 'b"

text \<open>
  The body of a response: the plain text \<^verbatim>\<open>"ok"\<close> of the preflight answer, or the
  JSON objects \<^verbatim>\<open>{error: m}\<close>, \<^verbatim>\<open>{ok: true}\<close>, \<^verbatim>\<open>{ok: true, ignored: true}\<close>
  and \<^verbatim>\<open>{configured, updated_at}\<close>. Every response carries the CORS headers; they
  are not modelled.
\<close>

datatype body =
  Text jsstring
  | Json_error jsstring
  | Json_ok
  | Json_ok_ignored
  | Json_configured bool "jsstring option"

record response =
  status :: nat
  body :: body

definition Response :: "nat \<Rightarrow> body \<Rightarrow> response" where
  "Response st b = \<lparr>status = st, body = b\<rparr>"

section \<open>midtrans-webhook\<close>

datatype Env = Sandbox | Production

definition Env_string :: "Env \<Rightarrow> jsstring" where
  "Env_string pe = (case pe of Sandbox \<Rightarrow> lit ''sandbox'' | Production \<Rightarrow> lit ''production'')"

definition server_key_name :: "Env \<Rightarrow> jsstring" where
  "server_key_name pe =
     (if pe = Sandbox then lit ''server_key_sandbox'' else lit ''server_key_production'')"

definition getPlainServerKey :: "env \<Rightarrow> store \<Rightarrow> Env \<Rightarrow> thrown + jsstring" where
  "getPlainServerKey e st pe =
     (let name = server_key_name pe in
      case maybeSingle e Integration_secrets
             (filter (\<lambda>r. s_provider r = lit ''midtrans'' \<and> s_name r = name)
                (integration_secrets st)) of
        Inl err \<Rightarrow> Inl err
      | Inr data \<Rightarrow>
          (let iv = String_or_empty (case data of None \<Rightarrow> None | Some r \<Rightarrow> s_iv r);
               key = (if iv = lit ''plain''
                      then String_or_empty (case data of None \<Rightarrow> None | Some r \<Rightarrow> s_ciphertext r)
                      else [])
           in if trim key = [] then Inl (new_Error (lit ''Missing '' @ name))
              else Inr (trim key)))"

text \<open>\<^verbatim>\<open>getPlainServerKey(admin, env).catch(() => "")\<close>\<close>

definition server_key_or_empty :: "env \<Rightarrow> store \<Rightarrow> Env \<Rightarrow> jsstring" where
  "server_key_or_empty e st pe =
     (case getPlainServerKey e st pe of Inl err \<Rightarrow> [] | Inr key \<Rightarrow> key)"

record signature_params =
  signature_key :: jsstring
  order_id :: jsstring
  status_code :: jsstring
  gross_amount :: jsstring
  server_key :: jsstring

definition verifySignature :: "env \<Rightarrow> signature_params \<Rightarrow> bool" where
  "verifySignature e params =
     (let expected =
            sha512Hex (digest e)
              (order_id params @ status_code params @ gross_amount params @ server_key params)
      in expected = signature_key params)"

record webhook_body =
  b_order_id :: "jsstring option"
  b_status_code :: "jsstring option"
  b_gross_amount :: "jsstring option"
  b_signature_key :: "jsstring option"
  b_transaction_status :: "jsstring option"
  b_fraud_status :: "jsstring option"
  b_payment_type :: "jsstring option"
  b_transaction_id :: "jsstring option"

text \<open>Lines 82 to 95: the environment whose key verifies the signature, if one does.\<close>

definition signature_env ::
  "env \<Rightarrow> store \<Rightarrow> jsstring \<Rightarrow> jsstring \<Rightarrow> jsstring \<Rightarrow> jsstring \<Rightarrow> Env option" where
  "signature_env e st oid sc ga sk =
     (let prodKey = server_key_or_empty e st Production;
          sandKey = server_key_or_empty e st Sandbox;
          isProd = (if prodKey \<noteq> []
                    then verifySignature e
                           \<lparr>signature_key = sk, order_id = oid, status_code = sc,
                            gross_amount = ga, server_key = prodKey\<rparr>
                    else False);
          isSandbox = (if \<not> isProd \<and> sandKey \<noteq> []
                       then verifySignature e
                              \<lparr>signature_key = sk, order_id = oid, status_code = sc,
                               gross_amount = ga, server_key = sandKey\<rparr>
                       else False)
      in if \<not> isProd \<and> \<not> isSandbox then None
         else Some (if isProd then Production else Sandbox))"

text \<open>
  Line 133, \<^verbatim>\<open>Number(order.subscription_years ?? 0)\<close> on an integer column, and
  lines 116, 117 and 127: \<open>paid\<close>, \<open>failed\<close> and the status written.
\<close>

definition subscription_years :: "order_row \<Rightarrow> int" where
  "subscription_years order = (case o_subscription_years order of None \<Rightarrow> 0 | Some y \<Rightarrow> y)"

definition paid :: "jsstring option \<Rightarrow> bool" where
  "paid transaction_status \<longleftrightarrow>
     transaction_status = Some (lit ''settlement'') \<or> transaction_status = Some (lit ''capture'')"

definition failed :: "jsstring option \<Rightarrow> bool" where
  "failed transaction_status \<longleftrightarrow>
     transaction_status = Some (lit ''deny'') \<or> transaction_status = Some (lit ''cancel'')
     \<or> transaction_status = Some (lit ''expire'')"

definition order_status :: "jsstring option \<Rightarrow> jsstring" where
  "order_status transaction_status =
     (if paid transaction_status then lit ''paid''
      else if failed transaction_status then lit ''failed'' else lit ''pending'')"

text \<open>
  Lines 119 to 129: the update of the rows of \<open>orders\<close> whose id is the order's, with
  the fields read at lines 97 to 100.
\<close>

definition updated_row :: "Env \<Rightarrow> webhook_body \<Rightarrow> order_row \<Rightarrow> order_row" where
  "updated_row pe b r =
     (let transaction_status = trimmed_or_null (b_transaction_status b);
          fraud_status = trimmed_or_null (b_fraud_status b);
          payment_type = trimmed_or_null (b_payment_type b);
          transaction_id = trimmed_or_null (b_transaction_id b)
      in r\<lparr>o_payment_env := Some (Env_string pe),
            o_midtrans_transaction_status := transaction_status,
            o_midtrans_fraud_status := fraud_status,
            o_midtrans_payment_type := payment_type,
            o_midtrans_transaction_id := transaction_id,
            o_status := order_status transaction_status\<rparr>)"

definition update_order :: "Env \<Rightarrow> webhook_body \<Rightarrow> order_row \<Rightarrow> store \<Rightarrow> store" where
  "update_order pe b order st =
     st\<lparr>orders := map (\<lambda>r. if o_id r = o_id order then updated_row pe b r else r) (orders st)\<rparr>"

text \<open>
  Lines 145 to 153: the insert into \<open>user_packages\<close>. The handler awaits the request and
  discards its reply, so a refused insert leaves the table as it was and the handler
  goes on.
\<close>

definition insert_user_package :: "env \<Rightarrow> user_package_row \<Rightarrow> store \<Rightarrow> store" where
  "insert_user_package e row st =
     (case fault e User_packages of
        Some error \<Rightarrow> st
      | None \<Rightarrow> st\<lparr>user_packages := user_packages st @ [row]\<rparr>)"

text \<open>
  Lines 156 to 159: the update of \<open>profiles\<close>, its reply discarded in the same way.
\<close>

definition activate_profile :: "env \<Rightarrow> jsstring \<Rightarrow> timestamp \<Rightarrow> store \<Rightarrow> store" where
  "activate_profile e userId updated_at st =
     (case fault e Profiles of
        Some error \<Rightarrow> st
      | None \<Rightarrow>
          st\<lparr>profiles :=
               map (\<lambda>p. if pr_id p = userId
                         then p\<lparr>pr_account_status := lit ''active'',
                                pr_payment_active := True,
                                pr_updated_at := updated_at\<rparr>
                         else p)
                 (profiles st)\<rparr>)"

text \<open>
  Lines 143 to 159. The three dates are computed before the insert is sent, so a
  \<^verbatim>\<open>RangeError\<close> leaves both tables as they were.
\<close>

definition grant_package :: "env \<Rightarrow> jsstring \<Rightarrow> jsstring \<Rightarrow> int \<Rightarrow> store \<Rightarrow> (thrown + unit) \<times> store" where
  "grant_package e userId packageId years st =
     (let now = Some (now e);
          durationMonths = years * 12
      in case toISOString now of
           Inl err \<Rightarrow> (Inl err, st)
         | Inr started \<Rightarrow>
             (case addMonthsIso now durationMonths of
                Inl err \<Rightarrow> (Inl err, st)
              | Inr expires \<Rightarrow>
                  (let st1 = insert_user_package e
                               \<lparr>up_user_id = userId, up_package_id = packageId,
                                up_duration_months = durationMonths,
                                up_started_at = started, up_activated_at = started,
                                up_expires_at = expires, up_status = lit ''active''\<rparr> st;
                       st2 = activate_profile e userId started st1
                   in (Inr (), st2))))"

text \<open>Lines 135 to 141: the configured default package.\<close>

definition lookup_package :: "env \<Rightarrow> store \<Rightarrow> thrown + jsstring option" where
  "lookup_package e st =
     (case maybeSingle e Domain_pricing_settings
             (filter (\<lambda>r. p_id r = True) (domain_pricing_settings st)) of
        Inl pricingErr \<Rightarrow> Inl pricingErr
      | Inr pricingRow \<Rightarrow>
          Inr (case pricingRow of None \<Rightarrow> None | Some r \<Rightarrow> p_default_package_id r))"

text \<open>Lines 131 to 161.\<close>

definition activate :: "env \<Rightarrow> webhook_body \<Rightarrow> order_row \<Rightarrow> store \<Rightarrow> (thrown + unit) \<times> store" where
  "activate e b order st =
     (let userId = o_user_id order;
          years = subscription_years order
      in if paid (trimmed_or_null (b_transaction_status b)) \<and> truthy userId \<and> years > 0
         then (case lookup_package e st of
                 Inl pricingErr \<Rightarrow> (Inl pricingErr, st)
               | Inr packageId \<Rightarrow>
                   (if truthy packageId
                    then grant_package e (String_or_empty userId) (String_or_empty packageId)
                           years st
                    else (Inr (), st)))
         else (Inr (), st))"

text \<open>Line 103 to 107: the lookup of the order.\<close>

definition lookup_order :: "env \<Rightarrow> store \<Rightarrow> jsstring \<Rightarrow> thrown + order_row option" where
  "lookup_order e st oid =
     maybeSingle e Orders (filter (\<lambda>r. o_midtrans_order_id r = Some oid) (orders st))"

text \<open>The body of the \<^verbatim>\<open>try\<close> block: a response, or the value thrown, and the store left.\<close>

definition webhook_try ::
  "env \<Rightarrow> webhook_body request \<Rightarrow> store \<Rightarrow> (thrown + response) \<times> store" where
  "webhook_try e req st =
     (if \<not> truthy (SUPABASE_URL e) \<or> \<not> truthy (SUPABASE_SERVICE_ROLE_KEY e)
      then (Inr (Response 500
                  (Json_error (lit ''Missing SUPABASE_URL / SUPABASE_SERVICE_ROLE_KEY''))), st)
      else
        case req_json req of
          Inl err \<Rightarrow> (Inl err, st)
        | Inr b \<Rightarrow>
            (let oid = trimmed (b_order_id b);
                 sc = trimmed (b_status_code b);
                 ga = trimmed (b_gross_amount b);
                 sk = trimmed (b_signature_key b)
             in if oid = [] \<or> sc = [] \<or> ga = [] \<or> sk = []
                then (Inr (Response 400 (Json_error (lit ''Invalid payload''))), st)
                else
                  case signature_env e st oid sc ga sk of
                    None \<Rightarrow> (Inr (Response 401 (Json_error (lit ''Invalid signature''))), st)
                  | Some pe \<Rightarrow>
                      (case lookup_order e st oid of
                         Inl orderErr \<Rightarrow> (Inl orderErr, st)
                       | Inr None \<Rightarrow> (Inr (Response 200 Json_ok_ignored), st)
                       | Inr (Some order) \<Rightarrow>
                           (let st1 = update_order pe b order st
                            in case activate e b order st1 of
                                 (Inl err, st2) \<Rightarrow> (Inl err, st2)
                               | (Inr u, st2) \<Rightarrow> (Inr (Response 200 Json_ok), st2)))))"

text \<open>The handler: the preflight answer, the \<^verbatim>\<open>try\<close> block and its \<^verbatim>\<open>catch\<close>.\<close>

definition webhook :: "env \<Rightarrow> webhook_body request \<Rightarrow> store \<Rightarrow> response \<times> store" where
  "webhook e req st =
     (if req_method req = lit ''OPTIONS'' then (Response 200 (Text (lit ''ok'')), st)
      else
        case webhook_try e req st of
          (Inl err, st') \<Rightarrow> (Response 500 (Json_error (caught_message err)), st')
        | (Inr r, st') \<Rightarrow> (r, st'))"

text \<open>
  A request that reaches the lookup of the order: it is not a preflight, the deployment
  is configured, its JSON body \<open>b\<close> was read and has the four fields, and its signature
  verifies with the key of environment \<open>pe\<close>.
\<close>

definition verified ::
  "env \<Rightarrow> webhook_body request \<Rightarrow> store \<Rightarrow> webhook_body \<Rightarrow> Env \<Rightarrow> bool" where
  "verified e req st b pe \<longleftrightarrow>
     req_method req \<noteq> lit ''OPTIONS'' \<and> truthy (SUPABASE_URL e)
     \<and> truthy (SUPABASE_SERVICE_ROLE_KEY e) \<and> req_json req = Inr b
     \<and> trimmed (b_order_id b) \<noteq> [] \<and> trimmed (b_status_code b) \<noteq> []
     \<and> trimmed (b_gross_amount b) \<noteq> [] \<and> trimmed (b_signature_key b) \<noteq> []
     \<and> signature_env e st (trimmed (b_order_id b)) (trimmed (b_status_code b))
           (trimmed (b_gross_amount b)) (trimmed (b_signature_key b)) = Some pe"

section \<open>super-admin-xendit-secret\<close>

text \<open>The result of \<open>validateXenditSecretKey\<close>: \<^verbatim>\<open>{ok: false, error}\<close> or \<^verbatim>\<open>{ok: true, apiKey}\<close>.\<close>

datatype validation = Invalid jsstring | Valid jsstring

definition validateXenditSecretKey :: "jsstring option \<Rightarrow> validation" where
  "validateXenditSecretKey input =
     (let apiKey = trimmed input in
      if apiKey = [] then Invalid (lit ''api_key is required'')
      else if has_ws apiKey \<or> length apiKey < 8 \<or> length apiKey > 256
      then Invalid (lit ''Invalid api_key format'')
      else if \<not> startsWith apiKey (lit ''xnd_'')
      then Invalid (lit ''Invalid Xendit key. Use a key that starts with '' @ [0x27]
                    @ lit ''xnd_'' @ [0x27])
      else if startsWith apiKey (lit ''xnd_public_'')
      then Invalid (lit ''Invalid Xendit key for server-side usage. Please paste the Xendit *Secret* API Key (xnd_development_... / xnd_production_...), not the public key.'')
      else Valid apiKey)"

text \<open>The result of \<open>requireSuperAdmin\<close>: \<^verbatim>\<open>{ok: false, status, error}\<close> or \<^verbatim>\<open>{ok: true, userId}\<close>.\<close>

datatype authz = Denied nat jsstring | Granted jsstring

definition requireSuperAdmin :: "env \<Rightarrow> store \<Rightarrow> jsstring \<Rightarrow> authz" where
  "requireSuperAdmin e st userId =
     (case maybeSingle e User_roles (filter (\<lambda>r. r_user_id r = userId) (user_roles st)) of
        Inl roleErr \<Rightarrow> Denied 500 (message roleErr)
      | Inr roleRow \<Rightarrow>
          (if (case roleRow of None \<Rightarrow> None | Some r \<Rightarrow> Some (r_role r))
                \<noteq> Some (lit ''super_admin'')
           then Denied 403 (lit ''Forbidden'')
           else Granted userId))"

text \<open>
  The JSON body of the request. \<open>req_json\<close> is \<open>Inl\<close> for a body that cannot be read
  and for the body \<^verbatim>\<open>null\<close>, on which \<^verbatim>\<open>body.action\<close> throws a TypeError.
\<close>

record secret_body =
  action :: "jsstring option"
  api_key :: "jsstring option"

text \<open>Lines 70 and 71: the token of the Authorization header.\<close>

definition bearer_token :: "jsstring option \<Rightarrow> jsstring option" where
  "bearer_token header =
     (let authHeader = String_or_empty header
      in if startsWith authHeader (lit ''Bearer '') then Some (drop 7 authHeader) else None)"

text \<open>Lines 70 to 90: the user id the request's token resolves to, if it does.\<close>

definition caller :: "env \<Rightarrow> secret_body request \<Rightarrow> jsstring option" where
  "caller e req =
     (let token = bearer_token (req_authorization req)
      in if \<not> truthy token then None
         else (case getClaims e (String_or_empty token) of
                 Claims_error \<Rightarrow> None
               | Claims s \<Rightarrow> if \<not> truthy s then None else Some (String_or_empty s)))"

definition is_xendit_key :: "secret_row \<Rightarrow> bool" where
  "is_xendit_key r \<longleftrightarrow> s_provider r = lit ''xendit'' \<and> s_name r = lit ''api_key''"

text \<open>
  The upsert of lines 130 to 138, on conflict of \<open>(provider, name)\<close>: the row with that
  key gets the new \<open>ciphertext\<close> and \<open>iv\<close>; without one, a row is inserted, its other
  columns left to their defaults.
\<close>

definition upsert_xendit_key :: "jsstring \<Rightarrow> secret_row list \<Rightarrow> secret_row list" where
  "upsert_xendit_key apiKey rows =
     (if list_ex is_xendit_key rows
      then map (\<lambda>r. if is_xendit_key r
                     then r\<lparr>s_ciphertext := Some apiKey, s_iv := Some (lit ''plain'')\<rparr>
                     else r) rows
      else rows @ [\<lparr>s_provider = lit ''xendit'', s_name = lit ''api_key'',
                     s_ciphertext = Some apiKey, s_iv = Some (lit ''plain''),
                     s_updated_at = None\<rparr>])"

text \<open>Lines 101 to 158: the actions, once the caller is authorised.\<close>

definition secret_action ::
  "env \<Rightarrow> secret_body request \<Rightarrow> store \<Rightarrow> (thrown + response) \<times> store" where
  "secret_action e req st =
     (case req_json req of
        Inl err \<Rightarrow> (Inl err, st)
      | Inr b \<Rightarrow>
          if action b = Some (lit ''get'')
          then (case maybeSingle e Integration_secrets
                       (filter is_xendit_key (integration_secrets st)) of
                  Inl error \<Rightarrow> (Inl error, st)
                | Inr data \<Rightarrow>
                    (Inr (Response 200
                           (Json_configured (data \<noteq> None)
                              (case data of
                                 None \<Rightarrow> None
                               | Some r \<Rightarrow>
                                   Some (case s_updated_at r of
                                           None \<Rightarrow> lit ''null'' | Some u \<Rightarrow> u)))), st))
          else if action b = Some (lit ''set'')
          then (case validateXenditSecretKey (api_key b) of
                  Invalid error \<Rightarrow> (Inr (Response 400 (Json_error error)), st)
                | Valid apiKey \<Rightarrow>
                    (case fault e Integration_secrets of
                       Some error \<Rightarrow> (Inl error, st)
                     | None \<Rightarrow>
                         (Inr (Response 200 Json_ok),
                          st\<lparr>integration_secrets :=
                                upsert_xendit_key apiKey (integration_secrets st)\<rparr>)))
          else if action b = Some (lit ''clear'')
          then (case fault e Integration_secrets of
                  Some error \<Rightarrow> (Inl error, st)
                | None \<Rightarrow>
                    (Inr (Response 200 Json_ok),
                     st\<lparr>integration_secrets :=
                           filter (\<lambda>r. \<not> is_xendit_key r) (integration_secrets st)\<rparr>))
          else (Inr (Response 400 (Json_error (lit ''Unknown action''))), st))"

definition xendit_secret_try ::
  "env \<Rightarrow> secret_body request \<Rightarrow> store \<Rightarrow> (thrown + response) \<times> store" where
  "xendit_secret_try e req st =
     (if \<not> truthy (SUPABASE_URL e) \<or> \<not> truthy (SUPABASE_ANON_KEY e)
         \<or> \<not> truthy (SUPABASE_SERVICE_ROLE_KEY e)
      then (Inr (Response 500
                  (Json_error
                     (lit ''Missing SUPABASE_URL / SUPABASE_ANON_KEY / SUPABASE_SERVICE_ROLE_KEY''))),
            st)
      else
        case caller e req of
          None \<Rightarrow> (Inr (Response 401 (Json_error (lit ''Unauthorized''))), st)
        | Some userId \<Rightarrow>
            (case requireSuperAdmin e st userId of
               Denied code error \<Rightarrow> (Inr (Response code (Json_error error)), st)
             | Granted uid \<Rightarrow> secret_action e req st))"

definition xendit_secret :: "env \<Rightarrow> secret_body request \<Rightarrow> store \<Rightarrow> response \<times> store" where
  "xendit_secret e req st =
     (if req_method req = lit ''OPTIONS'' then (Response 200 (Text (lit ''ok'')), st)
      else
        case xendit_secret_try e req st of
          (Inl err, st') \<Rightarrow> (Response 500 (Json_error (caught_message err)), st')
        | (Inr r, st') \<Rightarrow> (r, st'))"

text \<open>
  The request passes the checks of lines 70 to 99: its token resolves to a user whose
  single \<open>user_roles\<close> row has the role \<open>super_admin\<close>.
\<close>

definition super_admin_request :: "env \<Rightarrow> secret_body request \<Rightarrow> store \<Rightarrow> bool" where
  "super_admin_request e req st =
     (case caller e req of
        None \<Rightarrow> False
      | Some userId \<Rightarrow> requireSuperAdmin e st userId = Granted userId)"

section \<open>useDomainSuggestions\<close>

text \<open>
  The hook's state, and one item of a response of \<^verbatim>\<open>domainr-check\<close> as the callback
  reads it: each field absent or present, \<open>raw_price_usd\<close> present only when it is a
  number. Numbers are passed through; their type is the parameter \<open>'n\<close>.
\<close>

record 'n DomainSuggestionItem =
  domain :: jsstring
  item_status :: jsstring
  price_usd :: "'n option"
  currency :: "jsstring option"

record 'n raw_item =
  raw_domain :: "jsstring option"
  raw_status :: "jsstring option"
  raw_price_usd :: "'n option"
  raw_currency :: "jsstring option"

record 'n State =
  loading :: bool
  error :: "jsstring option"
  items :: "'n DomainSuggestionItem list"

definition initial_State :: "'n State" where
  "initial_State = \<lparr>loading = False, error = None, items = []\<rparr>"

text \<open>
  How \<^verbatim>\<open>supabase.functions.invoke\<close> settles: with an error, of which the catch reads
  the \<^verbatim>\<open>message\<close> if it has one, or with data, whose \<^verbatim>\<open>items\<close> are given when they
  are an array.
\<close>

datatype 'n invoke_result = Invoke_error "jsstring option" | Invoke_data "'n raw_item list option"

text \<open>
  The hook instance in its page: the state of \<^verbatim>\<open>useState\<close>, the ref
  \<^verbatim>\<open>timer.current\<close>, the timeouts of the window that are armed (the id
  \<^verbatim>\<open>setTimeout\<close> returned and the query \<open>q\<close> the callback closes over), the next id
  \<^verbatim>\<open>setTimeout\<close> returns (ids are positive and never reused), the calls of
  \<^verbatim>\<open>domainr-check\<close> that have not settled, whether the last run of the effect returned
  its cleanup, the dependencies \<^verbatim>\<open>[debounceMs, enabled, query]\<close> of that run, and
  whether the component is mounted.
\<close>

record 'n hook =
  state :: "'n State"
  timer_current :: "nat option"
  timeouts :: "(nat \<times> jsstring) list"
  next_timeout :: nat
  invocations :: "jsstring list"
  cleanup :: bool
  deps :: "(nat \<times> bool \<times> jsstring option) option"
  mounted :: bool

definition mount :: "'n hook" where
  "mount = \<lparr>state = initial_State, timer_current = None, timeouts = [], next_timeout = 1,
            invocations = [], cleanup = False, deps = None, mounted = True\<rparr>"

definition clearTimeout :: "nat \<Rightarrow> 'n hook \<Rightarrow> 'n hook" where
  "clearTimeout i h = h\<lparr>timeouts := filter (\<lambda>t. fst t \<noteq> i) (timeouts h)\<rparr>"

text \<open>\<^verbatim>\<open>if (timer.current) window.clearTimeout(timer.current)\<close>\<close>

definition clear_current :: "'n hook \<Rightarrow> 'n hook" where
  "clear_current h =
     (case timer_current h of
        None \<Rightarrow> h
      | Some i \<Rightarrow> if i \<noteq> 0 then clearTimeout i h else h)"

text \<open>\<^verbatim>\<open>setState\<close>; React drops the update of a component that is unmounted.\<close>

definition setState :: "'n State \<Rightarrow> 'n hook \<Rightarrow> 'n hook" where
  "setState s h = (if mounted h then h\<lparr>state := s\<rparr> else h)"

text \<open>The body of the effect, lines 24 to 60; \<open>cleanup\<close> records whether it returned the cleanup.\<close>

definition effect :: "jsstring option \<Rightarrow> bool \<Rightarrow> nat \<Rightarrow> 'n hook \<Rightarrow> 'n hook" where
  "effect query enabled debounceMs h =
     (if \<not> enabled then h\<lparr>cleanup := False\<rparr>
      else
        let q = trimmed query in
        if q = [] then (setState initial_State h)\<lparr>cleanup := False\<rparr>
        else
          let h1 = clear_current h;
              h2 = h1\<lparr>timeouts := timeouts h1 @ [(next_timeout h1, q)],
                      timer_current := Some (next_timeout h1),
                      next_timeout := Suc (next_timeout h1)\<rparr>
          in h2\<lparr>cleanup := True\<rparr>)"

text \<open>React runs the cleanup the last effect returned, if it returned one.\<close>

definition run_cleanup :: "'n hook \<Rightarrow> 'n hook" where
  "run_cleanup h = (if cleanup h then (clear_current h)\<lparr>cleanup := False\<rparr> else h)"

text \<open>
  The callback of the timeout up to the call of \<^verbatim>\<open>invoke\<close> (lines 35 to 39), and what
  follows the call when it settles (lines 40 to 55).
\<close>

definition callback :: "jsstring \<Rightarrow> 'n hook \<Rightarrow> 'n hook" where
  "callback q h =
     (setState ((state h)\<lparr>loading := True, error := None\<rparr>) h)
       \<lparr>invocations := invocations h @ [q]\<rparr>"

definition to_item :: "'n raw_item \<Rightarrow> 'n DomainSuggestionItem" where
  "to_item it =
     \<lparr>domain = String_or_empty (raw_domain it),
      item_status = (case raw_status it of None \<Rightarrow> lit ''unknown'' | Some s \<Rightarrow> s),
      price_usd = raw_price_usd it,
      currency = (if truthy (raw_currency it) then raw_currency it else None)\<rparr>"

definition settled :: "'n invoke_result \<Rightarrow> 'n State" where
  "settled r =
     (case r of
        Invoke_error m \<Rightarrow>
          \<lparr>loading = False,
           error = Some (case m of None \<Rightarrow> lit ''Failed to fetch domain suggestions''
                         | Some msg \<Rightarrow> msg),
           items = []\<rparr>
      | Invoke_data d \<Rightarrow>
          \<lparr>loading = False, error = None,
           items = map to_item (case d of None \<Rightarrow> [] | Some its \<Rightarrow> its)\<rparr>)"

text \<open>
  What happens to the hook: a render with the given arguments (React runs the effect on
  the first render and when a dependency changed, after the cleanup of the run before),
  an armed timeout firing, a call of \<^verbatim>\<open>domainr-check\<close> settling, the unmount.
\<close>

datatype 'n event =
  Render "jsstring option" bool nat
  | Fire nat
  | Settle nat "'n invoke_result"
  | Unmount

definition step :: "'n event \<Rightarrow> 'n hook \<Rightarrow> 'n hook" where
  "step ev h =
     (case ev of
        Render query enabled debounceMs \<Rightarrow>
          if \<not> mounted h \<or> deps h = Some (debounceMs, enabled, query) then h
          else effect query enabled debounceMs
                 ((run_cleanup h)\<lparr>deps := Some (debounceMs, enabled, query)\<rparr>)
      | Fire i \<Rightarrow>
          (case find (\<lambda>t. fst t = i) (timeouts h) of
             None \<Rightarrow> h
           | Some t \<Rightarrow> callback (snd t) (clearTimeout i h))
      | Settle k r \<Rightarrow>
          if k < length (invocations h)
          then (setState (settled r) h)
                 \<lparr>invocations := take k (invocations h) @ drop (Suc k) (invocations h)\<rparr>
          else h
      | Unmount \<Rightarrow> if mounted h then (run_cleanup h)\<lparr>mounted := False\<rparr> else h)"

definition run :: "'n event list \<Rightarrow> 'n hook" where
  "run evs = foldl (\<lambda>h ev. step ev h) mount evs"

text \<open>
  The invariant of the hook: the ids handed out are positive, and an armed timeout is the
  only one, is the one \<open>timer.current\<close> holds, and has its cleanup registered.
\<close>

definition timers_ok :: "'n hook \<Rightarrow> bool" where
  "timers_ok h \<longleftrightarrow>
     0 < next_timeout h
     \<and> (timeouts h = []
        \<or> (\<exists>i q. timeouts h = [(i, q)] \<and> timer_current h = Some i \<and> 0 < i
               \<and> i < next_timeout h \<and> cleanup h \<and> mounted h))"

section \<open>Sample data\<close>

text \<open>
  A deployment, a store and requests on which the theorems below are instantiated. The
  sample digest stands for SHA-512: two bytes, the length of the input and the sum of its
  code units.
\<close>

definition sample_digest :: "jsstring \<Rightarrow> 8 word list" where
  "sample_digest s = [of_nat (length s), ucast (foldl (+) 0 s)]"

definition sample_env :: env where
  "sample_env =
     \<lparr>SUPABASE_URL = Some (lit ''https://project.example''),
      SUPABASE_ANON_KEY = Some (lit ''anon''),
      SUPABASE_SERVICE_ROLE_KEY = Some (lit ''service''),
      now = 1793664000123,
      digest = sample_digest,
      getClaims = (\<lambda>token. if token = lit ''root-token'' then Claims (Some (lit ''u-root''))
                             else if token = lit ''user-token'' then Claims (Some (lit ''u1''))
                             else Claims_error),
      fault = (\<lambda>t. None),
      multi_row_error =
        Thrown False (lit ''JSON object requested, multiple (or no) rows returned'')
          (lit ''[object Object]'')\<rparr>"

definition sample_order :: order_row where
  "sample_order =
     \<lparr>o_id = lit ''o1'', o_midtrans_order_id = Some (lit ''ORD-1''),
      o_user_id = Some (lit ''u1''), o_subscription_years = Some 2,
      o_payment_env = None, o_midtrans_transaction_status = None,
      o_midtrans_fraud_status = None, o_midtrans_payment_type = None,
      o_midtrans_transaction_id = None, o_status = lit ''pending''\<rparr>"

definition sample_secrets :: "secret_row list" where
  "sample_secrets =
     [\<lparr>s_provider = lit ''midtrans'', s_name = lit ''server_key_production'',
       s_ciphertext = Some (lit ''prod-key''), s_iv = Some (lit ''plain''),
       s_updated_at = None\<rparr>,
      \<lparr>s_provider = lit ''midtrans'', s_name = lit ''server_key_sandbox'',
       s_ciphertext = Some (lit ''sand-key''), s_iv = Some (lit ''plain''),
       s_updated_at = None\<rparr>]"

definition sample_store :: store where
  "sample_store =
     \<lparr>integration_secrets = sample_secrets,
      orders = [sample_order],
      domain_pricing_settings = [\<lparr>p_id = True, p_default_package_id = Some (lit ''pkg1'')\<rparr>],
      user_packages = [],
      profiles = [\<lparr>pr_id = lit ''u1'', pr_account_status = lit ''pending'',
                   pr_payment_active = False, pr_updated_at = 0\<rparr>],
      user_roles = [\<lparr>r_user_id = lit ''u-root'', r_role = lit ''super_admin''\<rparr>,
                    \<lparr>r_user_id = lit ''u1'', r_role = lit ''customer''\<rparr>]\<rparr>"

text \<open>
  The body of a notification for order id \<open>oid\<close> with transaction status \<open>ts\<close>, signed
  with the server key \<open>key\<close>, and a POST request with a JSON body.
\<close>

definition notification :: "jsstring \<Rightarrow> jsstring \<Rightarrow> jsstring \<Rightarrow> webhook_body" where
  "notification oid key ts =
     \<lparr>b_order_id = Some oid, b_status_code = Some (lit ''200''),
      b_gross_amount = Some (lit ''10000.00''),
      b_signature_key =
        Some (sha512Hex sample_digest (oid @ lit ''200'' @ lit ''10000.00'' @ key)),
      b_transaction_status = Some ts, b_fraud_status = Some (lit ''accept''),
      b_payment_type = None, b_transaction_id = Some (lit ''tx-1'')\<rparr>"

definition post :: "'b \<Rightarrow> 'b request" where
  "post b = \<lparr>req_method = lit ''POST'', req_authorization = None, req_json = Inr b\<rparr>"

text \<open>A POST request with a bearer token and a JSON body.\<close>

definition bearer :: "jsstring \<Rightarrow> 'b \<Rightarrow> 'b request" where
  "bearer token b =
     \<lparr>req_method = lit ''POST'', req_authorization = Some (lit ''Bearer '' @ token),
      req_json = Inr b\<rparr>"

section \<open>Evaluation of the sample data and of the stages of the webhook\<close>

lemmas sample_defs =
  sample_env_def sample_store_def sample_secrets_def sample_order_def notification_def post_def sample_digest_def

lemmas js_defs = 
  lit_def trim_def trimmed_def is_ws_def String_or_empty_def truthy_def trimmed_or_null_def
  sha512Hex_def padStart2_def toString16_def hex_digit_def

lemmas webhook_stage_defs =
  maybeSingle_def getPlainServerKey_def server_key_or_empty_def server_key_name_def
  verifySignature_def signature_env_def lookup_order_def verified_def Let_def

lemma webhook_verified:
  assumes "verified e req st b pe"
  shows "webhook e req st =
     (case lookup_order e st (trimmed (b_order_id b)) of
        Inl err \<Rightarrow> (Response 500 (Json_error (caught_message err)), st)
      | Inr None \<Rightarrow> (Response 200 Json_ok_ignored, st)
      | Inr (Some order) \<Rightarrow>
          (case activate e b order (update_order pe b order st) of
             (Inl err, st2) \<Rightarrow> (Response 500 (Json_error (caught_message err)), st2)
           | (Inr u, st2) \<Rightarrow> (Response 200 Json_ok, st2)))"
  using assms
  by (simp add: verified_def webhook_def webhook_try_def Let_def
      split: sum.splits option.splits prod.splits)

lemma lookup_order_none:
  "lookup_order e st oid = Inr None \<longleftrightarrow>
     fault e Orders = None \<and> (\<forall>r \<in> set (orders st). o_midtrans_order_id r \<noteq> Some oid)"
proof -
  let ?rows = "filter (\<lambda>r. o_midtrans_order_id r = Some oid) (orders st)"
  have "?rows = [] \<longleftrightarrow> (\<forall>r \<in> set (orders st). o_midtrans_order_id r \<noteq> Some oid)"
    by (simp add: filter_empty_conv)
  moreover have "lookup_order e st oid = Inr None \<longleftrightarrow> fault e Orders = None \<and> ?rows = []"
    by (cases ?rows; cases "fault e Orders")
       (simp_all add: lookup_order_def maybeSingle_def split: list.splits)
  ultimately show ?thesis by simp
qed

lemma lit_status_distinct:
  "lit ''paid'' \<noteq> lit ''failed''" "lit ''paid'' \<noteq> lit ''pending''"
  "lit ''failed'' \<noteq> lit ''pending''" "lit ''failed'' \<noteq> lit ''paid''"
  "lit ''pending'' \<noteq> lit ''paid''" "lit ''pending'' \<noteq> lit ''failed''"
  by (simp_all add: lit_def)

lemma lit_transaction_status_distinct:
  "lit ''settlement'' \<noteq> lit ''deny''" "lit ''settlement'' \<noteq> lit ''cancel''"
  "lit ''settlement'' \<noteq> lit ''expire''" "lit ''capture'' \<noteq> lit ''deny''"
  "lit ''capture'' \<noteq> lit ''cancel''" "lit ''capture'' \<noteq> lit ''expire''"
  by (simp_all add: lit_def)

lemma lookup_order_some:
  assumes "lookup_order e st oid = Inr (Some order)"
  shows "fault e Orders = None"
    and "filter (\<lambda>r. o_midtrans_order_id r = Some oid) (orders st) = [order]"
    and "order \<in> set (orders st)"
    and "o_midtrans_order_id order = Some oid"
proof -
  let ?rows = "filter (\<lambda>r. o_midtrans_order_id r = Some oid) (orders st)"
  from assms show f: "fault e Orders = None"
    by (cases "fault e Orders") (simp_all add: lookup_order_def maybeSingle_def)
  from assms f show r: "?rows = [order]"
    by (cases ?rows) (auto simp: lookup_order_def maybeSingle_def split: list.splits)
  have "order \<in> set ?rows"
    by (simp add: r)
  then show "order \<in> set (orders st)" and "o_midtrans_order_id order = Some oid"
    by simp_all
qed

lemma grant_package_eq:
  "grant_package e userId packageId years st =
     (case setUTCMonth (Some (now e)) (MonthFromTime (now e) + years * 12) of
        None \<Rightarrow> (Inl invalid_time_value, st)
      | Some expires \<Rightarrow>
          (Inr (),
           st\<lparr>user_packages :=
                 (if fault e User_packages = None
                  then user_packages st @
                         [\<lparr>up_user_id = userId, up_package_id = packageId,
                           up_duration_months = years * 12,
                           up_started_at = now e, up_activated_at = now e,
                           up_expires_at = expires, up_status = lit ''active''\<rparr>]
                  else user_packages st),
               profiles :=
                 (if fault e Profiles = None
                  then map (\<lambda>p. if pr_id p = userId
                                 then p\<lparr>pr_account_status := lit ''active'',
                                        pr_payment_active := True,
                                        pr_updated_at := now e\<rparr>
                                 else p)
                         (profiles st)
                  else profiles st)\<rparr>))"
  by (simp add: grant_package_def insert_user_package_def activate_profile_def
        addMonthsIso_def toISOString_def Let_def split: option.splits)

text \<open>The conditions under which lines 143 to 159 run to their end.\<close>

lemma activate_eq:
  "activate e b order st =
     (if paid (trimmed_or_null (b_transaction_status b)) \<and> truthy (o_user_id order)
         \<and> subscription_years order > 0
      then (case lookup_package e st of
              Inl err \<Rightarrow> (Inl err, st)
            | Inr p \<Rightarrow>
                if truthy p
                then grant_package e (String_or_empty (o_user_id order)) (String_or_empty p)
                       (subscription_years order) st
                else (Inr (), st))
      else (Inr (), st))"
  by (simp add: activate_def Let_def)

lemma orders_grant_package [simp]:
  "orders (snd (grant_package e u p y st)) = orders st"
  "integration_secrets (snd (grant_package e u p y st)) = integration_secrets st"
  "domain_pricing_settings (snd (grant_package e u p y st)) = domain_pricing_settings st"
  "user_roles (snd (grant_package e u p y st)) = user_roles st"
  by (simp_all add: grant_package_eq split: option.splits)

lemma orders_activate [simp]:
  "orders (snd (activate e b order st)) = orders st"
  "integration_secrets (snd (activate e b order st)) = integration_secrets st"
  "domain_pricing_settings (snd (activate e b order st)) = domain_pricing_settings st"
  "user_roles (snd (activate e b order st)) = user_roles st"
  by (simp_all add: activate_eq split: sum.splits)

lemma update_order_tables [simp]:
  "integration_secrets (update_order pe b order st) = integration_secrets st"
  "domain_pricing_settings (update_order pe b order st) = domain_pricing_settings st"
  "user_packages (update_order pe b order st) = user_packages st"
  "profiles (update_order pe b order st) = profiles st"
  "user_roles (update_order pe b order st) = user_roles st"
  by (simp_all add: update_order_def)

lemma orders_update_order:
  "orders (update_order pe b order st) =
     map (\<lambda>r. if o_id r = o_id order then updated_row pe b r else r) (orders st)"
  by (simp add: update_order_def)

lemma webhook_verified_orders:
  assumes "verified e req st b pe"
    and "lookup_order e st (trimmed (b_order_id b)) = Inr (Some order)"
  shows "orders (snd (webhook e req st)) =
     map (\<lambda>r. if o_id r = o_id order then updated_row pe b r else r) (orders st)"
proof -
  have "snd (webhook e req st) = snd (activate e b order (update_order pe b order st))"
    using assms by (simp add: webhook_verified split: prod.splits sum.splits)
  then show ?thesis
    by (simp add: orders_update_order)
qed

lemma webhook_unverified:
  assumes "\<And>b pe. \<not> verified e req st b pe"
  shows "snd (webhook e req st) = st"
proof (cases "req_method req = lit ''OPTIONS'' \<or> \<not> truthy (SUPABASE_URL e)
              \<or> \<not> truthy (SUPABASE_SERVICE_ROLE_KEY e)")
  case True
  then show ?thesis
    by (auto simp: webhook_def webhook_try_def)
next
  case ready: False
  show ?thesis
  proof (cases "req_json req")
    case (Inl err)
    with ready show ?thesis
      by (simp add: webhook_def webhook_try_def)
  next
    case (Inr b)
    have "signature_env e st (trimmed (b_order_id b)) (trimmed (b_status_code b))
            (trimmed (b_gross_amount b)) (trimmed (b_signature_key b)) = None"
      if "trimmed (b_order_id b) \<noteq> []" "trimmed (b_status_code b) \<noteq> []"
         "trimmed (b_gross_amount b) \<noteq> []" "trimmed (b_signature_key b) \<noteq> []"
      using assms [of b] ready Inr that
      by (cases "signature_env e st (trimmed (b_order_id b)) (trimmed (b_status_code b))
            (trimmed (b_gross_amount b)) (trimmed (b_signature_key b))")
         (auto simp: verified_def)
    with ready Inr show ?thesis
      by (auto simp: webhook_def webhook_try_def Let_def)
  qed
qed

lemma verified_unique:
  assumes "verified e req st b pe" and "verified e req st b' pe'"
  shows "b' = b \<and> pe' = pe"
  using assms by (auto simp: verified_def)

lemma lookup_package_update_order [simp]:
  "lookup_package e (update_order pe b order st) = lookup_package e st"
  by (simp add: lookup_package_def)

text \<open>The store a verified webhook with a matched order leaves.\<close>

lemma webhook_verified_store:
  assumes "verified e req st b pe"
    and "lookup_order e st (trimmed (b_order_id b)) = Inr (Some order)"
  shows "snd (webhook e req st) =
     (if paid (trimmed_or_null (b_transaction_status b)) \<and> truthy (o_user_id order)
         \<and> subscription_years order > 0
      then (case lookup_package e st of
              Inl err \<Rightarrow> update_order pe b order st
            | Inr p \<Rightarrow>
                if truthy p
                then (case setUTCMonth (Some (now e))
                             (MonthFromTime (now e) + subscription_years order * 12) of
                        None \<Rightarrow> update_order pe b order st
                      | Some expires \<Rightarrow>
                          (update_order pe b order st)
                            \<lparr>user_packages :=
                               (if fault e User_packages = None
                                then user_packages st @
                                  [\<lparr>up_user_id = String_or_empty (o_user_id order),
                                    up_package_id = String_or_empty p,
                                    up_duration_months = subscription_years order * 12,
                                    up_started_at = now e, up_activated_at = now e,
                                    up_expires_at = expires, up_status = lit ''active''\<rparr>]
                                else user_packages st),
                             profiles :=
                               (if fault e Profiles = None
                                then map (\<lambda>r. if pr_id r = String_or_empty (o_user_id order)
                                               then r\<lparr>pr_account_status := lit ''active'',
                                                      pr_payment_active := True,
                                                      pr_updated_at := now e\<rparr>
                                               else r)
                                       (profiles st)
                                else profiles st)\<rparr>)
                else update_order pe b order st)
      else update_order pe b order st)"
proof -
  have w: "snd (webhook e req st) = snd (activate e b order (update_order pe b order st))"
    using assms by (simp add: webhook_verified split: prod.splits sum.splits)
  show ?thesis
    unfolding w activate_eq grant_package_eq
    by (simp split: sum.split option.split cong: if_cong)
qed

lemma webhook_verified_unmatched:
  assumes "verified e req st b pe"
    and "\<And>order. lookup_order e st (trimmed (b_order_id b)) \<noteq> Inr (Some order)"
  shows "snd (webhook e req st) = st"
  using assms by (simp add: webhook_verified split: sum.splits option.splits)

lemma MakeDay_add_years: "MakeDay y (m + k * 12) d = MakeDay (y + k) m d"
  by (simp add: MakeDay_def Let_def add.assoc)

lemma setUTCMonth_years:
  assumes "setUTCMonth (Some t) (MonthFromTime t + k * 12) = Some x"
  shows "x = MakeDate (MakeDay (YearFromTime t + k) (MonthFromTime t) (DateFromTime t))
               (TimeWithinDay t)"
  using assms
  by (simp add: setUTCMonth_def TimeClip_def MakeDay_add_years split: if_splits)

lemma sample_verified:
  "verified sample_env (post (notification (lit ''ORD-1'') (lit ''prod-key'') ts))
     sample_store (notification (lit ''ORD-1'') (lit ''prod-key'') ts) Production"
  by (simp add: sample_defs js_defs webhook_stage_defs)

lemma sample_lookup:
  "lookup_order sample_env sample_store
     (trimmed (b_order_id (notification (lit ''ORD-1'') key ts))) = Inr (Some sample_order)"
  by (simp add: sample_defs js_defs webhook_stage_defs)

lemma sample_expiry:
  "setUTCMonth (Some (now sample_env))
     (MonthFromTime (now sample_env) + subscription_years sample_order * 12)
   = Some 1856822400123"
proof -
  have "setUTCMonth (Some 1793664000123) (MonthFromTime 1793664000123 + 2 * 12)
          = Some 1856822400123"
    by code_simp
  then show ?thesis
    by (simp add: sample_env_def sample_order_def subscription_years_def)
qed

lemma sample_package:
  "lookup_package sample_env sample_store = Inr (Some (lit ''pkg1''))"
  by (simp add: lookup_package_def maybeSingle_def sample_env_def sample_store_def)

lemma sample_paid:
  "paid (trimmed_or_null (b_transaction_status (notification oid key (lit ''settlement''))))"
  by (simp add: paid_def notification_def js_defs)

lemma sample_webhook_store:
  "snd (webhook sample_env (post (notification (lit ''ORD-1'') (lit ''prod-key'') (lit ''settlement'')))
     sample_store) =
   (update_order Production (notification (lit ''ORD-1'') (lit ''prod-key'') (lit ''settlement''))
      sample_order sample_store)
     \<lparr>user_packages :=
        [\<lparr>up_user_id = lit ''u1'', up_package_id = lit ''pkg1'', up_duration_months = 24,
          up_started_at = 1793664000123, up_activated_at = 1793664000123,
          up_expires_at = 1856822400123, up_status = lit ''active''\<rparr>],
      profiles :=
        [\<lparr>pr_id = lit ''u1'', pr_account_status = lit ''active'',
          pr_payment_active = True, pr_updated_at = 1793664000123\<rparr>]\<rparr>"
proof -
  have u: "truthy (o_user_id sample_order)" "String_or_empty (o_user_id sample_order) = lit ''u1''"
    "subscription_years sample_order = 2"
    by (simp_all add: sample_order_def truthy_def String_or_empty_def lit_def subscription_years_def)
  have p: "truthy (Some (lit ''pkg1''))" "String_or_empty (Some (lit ''pkg1'')) = lit ''pkg1''"
    by (simp_all add: truthy_def String_or_empty_def lit_def)
  have s: "user_packages sample_store = []" "now sample_env = 1793664000123"
    "profiles sample_store = [\<lparr>pr_id = lit ''u1'', pr_account_status = lit ''pending'',
                   pr_payment_active = False, pr_updated_at = 0\<rparr>]"
    "fault sample_env User_packages = None" "fault sample_env Profiles = None"
    by (simp_all add: sample_store_def sample_env_def)
  show ?thesis
    using sample_expiry
    by (simp add: webhook_verified_store [OF sample_verified sample_lookup]
        sample_paid sample_package u p s)
qed

lemma webhook_verified_response:
  assumes "verified e req st b pe"
    and "lookup_order e st (trimmed (b_order_id b)) = Inr (Some order)"
  shows "fst (webhook e req st) =
     (case fst (activate e b order (update_order pe b order st)) of
        Inl err \<Rightarrow> Response 500 (Json_error (caught_message err))
      | Inr u \<Rightarrow> Response 200 Json_ok)"
  using assms by (simp add: webhook_verified split: prod.splits sum.splits)

lemma sample_verified_orders:
  "verified sample_env (post (notification (lit ''ORD-1'') (lit ''prod-key'') ts))
     (sample_store\<lparr>orders := os\<rparr>) (notification (lit ''ORD-1'') (lit ''prod-key'') ts) Production"
  by (simp add: sample_defs js_defs webhook_stage_defs)

lemma sample_lookup_orders:
  "o_midtrans_order_id order = Some (lit ''ORD-1'') \<Longrightarrow>
   lookup_order sample_env (sample_store\<lparr>orders := [order]\<rparr>)
     (trimmed (b_order_id (notification (lit ''ORD-1'') key ts))) = Inr (Some order)"
  by (simp add: sample_defs js_defs webhook_stage_defs)

lemma sample_package_orders:
  "lookup_package sample_env (sample_store\<lparr>orders := os\<rparr>) = Inr (Some (lit ''pkg1''))"
  by (simp add: lookup_package_def maybeSingle_def sample_env_def sample_store_def)

lemma far_expiry:
  "setUTCMonth (Some (now sample_env)) (MonthFromTime (now sample_env) + 300000 * 12) = None"
proof -
  have "setUTCMonth (Some 1793664000123) (MonthFromTime 1793664000123 + 300000 * 12) = None"
    by code_simp
  then show ?thesis
    by (simp add: sample_env_def)
qed

text \<open>A later run sees the same keys, and the order the update left.\<close>

lemma maybeSingle_later [simp]:
  "maybeSingle (e\<lparr>now := t\<rparr>) tb rows = maybeSingle e tb rows"
  by (simp add: maybeSingle_def split: option.splits list.splits)

lemma verifySignature_later [simp]:
  "verifySignature (e\<lparr>now := t\<rparr>) params = verifySignature e params"
  by (simp add: verifySignature_def)

lemma server_key_later:
  assumes "integration_secrets st' = integration_secrets st"
  shows "server_key_or_empty (e\<lparr>now := t\<rparr>) st' pe = server_key_or_empty e st pe"
  using assms by (simp add: server_key_or_empty_def getPlainServerKey_def)

lemma signature_env_later:
  assumes "integration_secrets st' = integration_secrets st"
  shows "signature_env (e\<lparr>now := t\<rparr>) st' oid sc ga sk = signature_env e st oid sc ga sk"
  by (simp add: signature_env_def server_key_later [OF assms] cong: if_cong)

lemma verified_later:
  assumes "integration_secrets st' = integration_secrets st"
  shows "verified (e\<lparr>now := t\<rparr>) req st' b pe = verified e req st b pe"
  by (simp add: verified_def signature_env_later [OF assms])

lemma updated_row_keeps [simp]:
  "o_id (updated_row pe b r) = o_id r"
  "o_midtrans_order_id (updated_row pe b r) = o_midtrans_order_id r"
  "o_user_id (updated_row pe b r) = o_user_id r"
  "subscription_years (updated_row pe b r) = subscription_years r"
  "updated_row pe b (updated_row pe b r) = updated_row pe b r"
  by (simp_all add: updated_row_def subscription_years_def Let_def)

lemma lookup_order_later:
  assumes "lookup_order e st oid = Inr (Some order)"
    and "orders st' = map (\<lambda>r. if o_id r = o_id order then updated_row pe b r else r) (orders st)"
  shows "lookup_order (e\<lparr>now := t\<rparr>) st' oid = Inr (Some (updated_row pe b order))"
proof -
  let ?g = "\<lambda>r. if o_id r = o_id order then updated_row pe b r else r"
  have "filter (\<lambda>r. o_midtrans_order_id r = Some oid) (map ?g (orders st))
          = map ?g (filter (\<lambda>r. o_midtrans_order_id r = Some oid) (orders st))"
    by (induction "orders st") (simp_all add: filter_map comp_def)
  then show ?thesis
    using lookup_order_some(1,2) [OF assms(1)] assms(2)
    by (simp add: lookup_order_def) (simp add: maybeSingle_def)
qed

lemma update_order_again:
  assumes "orders st' = map (\<lambda>r. if o_id r = o_id order then updated_row pe b r else r) (orders st)"
  shows "orders (update_order pe b (updated_row pe b order) st') = orders st'"
  by (simp add: orders_update_order assms)

lemma lookup_package_later:
  assumes "domain_pricing_settings st' = domain_pricing_settings st"
  shows "lookup_package (e\<lparr>now := t\<rparr>) st' = lookup_package e st"
  using assms by (simp add: lookup_package_def)

lemma orders_webhook_verified:
  assumes "verified e req st b pe"
    and "lookup_order e st (trimmed (b_order_id b)) = Inr (Some order)"
  shows "orders (snd (webhook e req st)) = orders (update_order pe b order st)"
    and "integration_secrets (snd (webhook e req st)) = integration_secrets st"
    and "domain_pricing_settings (snd (webhook e req st)) = domain_pricing_settings st"
proof -
  have "snd (webhook e req st) = snd (activate e b order (update_order pe b order st))"
    using assms by (simp add: webhook_verified split: prod.splits sum.splits)
  then show "orders (snd (webhook e req st)) = orders (update_order pe b order st)"
    and "integration_secrets (snd (webhook e req st)) = integration_secrets st"
    and "domain_pricing_settings (snd (webhook e req st)) = domain_pricing_settings st"
    by simp_all
qed

text \<open>Whether a run reaches the update of an order.\<close>

lemma webhook_cases:
  obtains (unmatched) "snd (webhook e req st) = st"
      "\<And>b pe order. verified e req st b pe \<Longrightarrow>
         lookup_order e st (trimmed (b_order_id b)) \<noteq> Inr (Some order)"
    | (matched) b pe order where "verified e req st b pe"
      "lookup_order e st (trimmed (b_order_id b)) = Inr (Some order)"
proof (cases "\<exists>b pe order. verified e req st b pe
                \<and> lookup_order e st (trimmed (b_order_id b)) = Inr (Some order)")
  case True
  then show ?thesis
    using matched by blast
next
  case False
  have "snd (webhook e req st) = st"
  proof (cases "\<exists>b pe. verified e req st b pe")
    case True
    then obtain b pe where v: "verified e req st b pe"
      by blast
    show ?thesis
      using False v by (intro webhook_verified_unmatched [OF v]) blast
  next
    case False
    then show ?thesis
      by (intro webhook_unverified) blast
  qed
  then show ?thesis
    using False unmatched by blast
qed

text \<open>The second of two runs on the same request, at any later time.\<close>

lemma webhook_again_unmatched:
  assumes "snd (webhook e req st) = st"
    and "\<And>b pe order. verified e req st b pe \<Longrightarrow>
           lookup_order e st (trimmed (b_order_id b)) \<noteq> Inr (Some order)"
  shows "snd (webhook (e\<lparr>now := t\<rparr>) req st) = st"
proof (cases "\<exists>b pe. verified (e\<lparr>now := t\<rparr>) req st b pe")
  case True
  then obtain b pe where v': "verified (e\<lparr>now := t\<rparr>) req st b pe"
    by blast
  then have v: "verified e req st b pe"
    by (simp add: verified_later)
  have "lookup_order (e\<lparr>now := t\<rparr>) st oid = lookup_order e st oid" for oid
    by (simp add: lookup_order_def)
  then show ?thesis
    using assms(2) [OF v] by (intro webhook_verified_unmatched [OF v']) simp
next
  case False
  then show ?thesis
    by (intro webhook_unverified) blast
qed

lemma webhook_again_matched:
  assumes v: "verified e req st b pe"
    and l: "lookup_order e st (trimmed (b_order_id b)) = Inr (Some order)"
  shows "verified (e\<lparr>now := t\<rparr>) req (snd (webhook e req st)) b pe"
    and "lookup_order (e\<lparr>now := t\<rparr>) (snd (webhook e req st)) (trimmed (b_order_id b))
           = Inr (Some (updated_row pe b order))"
    and "update_order pe b (updated_row pe b order) (snd (webhook e req st))
           = snd (webhook e req st)"
proof -
  note o = orders_webhook_verified [OF v l]
  show "verified (e\<lparr>now := t\<rparr>) req (snd (webhook e req st)) b pe"
    using v by (simp add: verified_later [OF o(2)])
  have m: "orders (snd (webhook e req st)) =
      map (\<lambda>r. if o_id r = o_id order then updated_row pe b r else r) (orders st)"
    by (simp add: o(1) orders_update_order)
  show "lookup_order (e\<lparr>now := t\<rparr>) (snd (webhook e req st)) (trimmed (b_order_id b))
           = Inr (Some (updated_row pe b order))"
    using l m by (rule lookup_order_later)
  have "orders (update_order pe b (updated_row pe b order) (snd (webhook e req st)))
          = orders (snd (webhook e req st))"
    using m by (rule update_order_again)
  then show "update_order pe b (updated_row pe b order) (snd (webhook e req st))
           = snd (webhook e req st)"
    by (simp add: update_order_def)
qed


lemma webhook_again_store:
  assumes v: "verified e req st b pe"
    and l: "lookup_order e st (trimmed (b_order_id b)) = Inr (Some order)"
  shows "snd (webhook (e\<lparr>now := t\<rparr>) req (snd (webhook e req st))) =
     (if paid (trimmed_or_null (b_transaction_status b)) \<and> truthy (o_user_id order)
         \<and> subscription_years order > 0
      then (case lookup_package e st of
              Inl err \<Rightarrow> snd (webhook e req st)
            | Inr p \<Rightarrow>
                if truthy p
                then (case setUTCMonth (Some t) (MonthFromTime t + subscription_years order * 12) of
                        None \<Rightarrow> snd (webhook e req st)
                      | Some expires \<Rightarrow>
                          (snd (webhook e req st))
                            \<lparr>user_packages :=
                               (if fault e User_packages = None
                                then user_packages (snd (webhook e req st)) @
                                  [\<lparr>up_user_id = String_or_empty (o_user_id order),
                                    up_package_id = String_or_empty p,
                                    up_duration_months = subscription_years order * 12,
                                    up_started_at = t, up_activated_at = t,
                                    up_expires_at = expires, up_status = lit ''active''\<rparr>]
                                else user_packages (snd (webhook e req st))),
                             profiles :=
                               (if fault e Profiles = None
                                then map (\<lambda>r. if pr_id r = String_or_empty (o_user_id order)
                                               then r\<lparr>pr_account_status := lit ''active'',
                                                      pr_payment_active := True,
                                                      pr_updated_at := t\<rparr>
                                               else r)
                                       (profiles (snd (webhook e req st)))
                                else profiles (snd (webhook e req st)))\<rparr>)
                else snd (webhook e req st))
      else snd (webhook e req st))"
proof -
  note a = webhook_again_matched(1) [OF v l, of t] webhook_again_matched(2) [OF v l, of t]
    webhook_again_matched(3) [OF v l]
  have p: "lookup_package (e\<lparr>now := t\<rparr>) (snd (webhook e req st)) = lookup_package e st"
    by (rule lookup_package_later) (rule orders_webhook_verified(3) [OF v l])
  show ?thesis
    by (simp add: webhook_verified_store [OF a(1,2)] a(3) p
        cong: if_cong sum.case_cong option.case_cong)
qed

lemma byte_hex:
  "padStart2 (toString16 b) = [hex_digit (unat b div 16), hex_digit (unat b mod 16)]"
  by (simp add: padStart2_def toString16_def hex_digit_def lit_def)

lemma hex_digit_lower:
  assumes "n < 16"
  shows "hex_digit n \<in> set (lit ''0123456789abcdef'')"
proof -
  have "length (lit ''0123456789abcdef'') = 16"
    by (simp add: lit_def)
  with assms show ?thesis
    unfolding hex_digit_def by (intro nth_mem) simp
qed

lemma foldl_hex:
  "foldl (\<lambda>out b. out @ padStart2 (toString16 b)) acc bs
     = acc @ concat (map (\<lambda>b. [hex_digit (unat b div 16), hex_digit (unat b mod 16)]) bs)"
  by (induction bs arbitrary: acc) (simp_all add: byte_hex)

text \<open>The digest is rendered with two lowercase hexadecimal digits per byte.\<close>

lemma sha512Hex_lower_hex:
  "length (sha512Hex d s) = 2 * length (d s)"
  "set (sha512Hex d s) \<subseteq> set (lit ''0123456789abcdef'')"
proof -
  have h: "sha512Hex d s
      = concat (map (\<lambda>b. [hex_digit (unat b div 16), hex_digit (unat b mod 16)]) (d s))"
    by (simp add: sha512Hex_def foldl_hex)
  show "length (sha512Hex d s) = 2 * length (d s)"
    unfolding h by (induction "d s") (simp_all add: length_concat comp_def sum_list_triv)
  have "unat b div 16 < 16" "unat b mod 16 < 16" for b :: "8 word"
  proof -
    have "unat b < 256"
      using unsigned_less [of b, where 'a = nat] by simp
    then show "unat b div 16 < 16" "unat b mod 16 < 16"
      by arith+
  qed
  then show "set (sha512Hex d s) \<subseteq> set (lit ''0123456789abcdef'')"
    unfolding h by (auto intro: hex_digit_lower)
qed

text \<open>Lines 85 and 86 in one formula: production first, sandbox only if production fails.\<close>

lemma signature_env_eq:
  "signature_env e st oid sc ga sk =
     (if server_key_or_empty e st Production \<noteq> []
         \<and> sha512Hex (digest e) (oid @ sc @ ga @ server_key_or_empty e st Production) = sk
      then Some Production
      else if server_key_or_empty e st Sandbox \<noteq> []
         \<and> sha512Hex (digest e) (oid @ sc @ ga @ server_key_or_empty e st Sandbox) = sk
      then Some Sandbox
      else None)"
  by (simp add: signature_env_def verifySignature_def Let_def)

text \<open>Lines 21 to 34 and the catch of lines 82 and 83: the key used, if any.\<close>

lemma server_key_or_empty_eq:
  "server_key_or_empty e st pe =
     (case fault e Integration_secrets of
        Some err \<Rightarrow> []
      | None \<Rightarrow>
          (case filter (\<lambda>r. s_provider r = lit ''midtrans'' \<and> s_name r = server_key_name pe)
                  (integration_secrets st) of
             [r] \<Rightarrow> if s_iv r = Some (lit ''plain'')
                    then trim (String_or_empty (s_ciphertext r)) else []
           | _ \<Rightarrow> []))"
proof -
  have "trim [] = []"
    by (simp add: trim_def)
  moreover have "String_or_empty v = lit ''plain'' \<longleftrightarrow> v = Some (lit ''plain'')" for v
    by (cases v) (simp_all add: String_or_empty_def lit_def)
  ultimately show ?thesis
    by (simp add: server_key_or_empty_def getPlainServerKey_def maybeSingle_def Let_def
        split: option.splits list.splits)
qed

lemma webhook_unsigned:
  assumes "req_method req \<noteq> lit ''OPTIONS''" "truthy (SUPABASE_URL e)"
    "truthy (SUPABASE_SERVICE_ROLE_KEY e)" "req_json req = Inr b"
    "trimmed (b_order_id b) \<noteq> []" "trimmed (b_status_code b) \<noteq> []"
    "trimmed (b_gross_amount b) \<noteq> []" "trimmed (b_signature_key b) \<noteq> []"
    "signature_env e st (trimmed (b_order_id b)) (trimmed (b_status_code b))
       (trimmed (b_gross_amount b)) (trimmed (b_signature_key b)) = None"
  shows "webhook e req st = (Response 401 (Json_error (lit ''Invalid signature'')), st)"
  using assms by (simp add: webhook_def webhook_try_def)

lemma webhook_verified_status:
  assumes "verified e req st b pe"
  shows "status (fst (webhook e req st)) \<noteq> 401"
  by (simp add: webhook_verified [OF assms] Response_def
      split: sum.splits option.splits prod.splits)


lemma webhook_invalid_payload:
  assumes "req_method req \<noteq> lit ''OPTIONS''" "truthy (SUPABASE_URL e)"
    "truthy (SUPABASE_SERVICE_ROLE_KEY e)" "req_json req = Inr b"
    "trimmed (b_order_id b) = [] \<or> trimmed (b_status_code b) = []
     \<or> trimmed (b_gross_amount b) = [] \<or> trimmed (b_signature_key b) = []"
  shows "webhook e req st = (Response 400 (Json_error (lit ''Invalid payload'')), st)"
  using assms by (auto simp: webhook_def webhook_try_def)

lemma webhook_unreadable:
  assumes "req_method req \<noteq> lit ''OPTIONS''" "truthy (SUPABASE_URL e)"
    "truthy (SUPABASE_SERVICE_ROLE_KEY e)" "req_json req = Inl err"
  shows "webhook e req st = (Response 500 (Json_error (caught_message err)), st)"
  using assms by (simp add: webhook_def webhook_try_def)

lemma trimmed_missing: "trimmed None = []"
  by (simp add: trimmed_def String_or_empty_def trim_def)

lemma signature_env_no_keys:
  assumes "getPlainServerKey e st Production = Inl e1" "getPlainServerKey e st Sandbox = Inl e2"
  shows "signature_env e st oid sc ga sk = None"
  using assms by (simp add: signature_env_eq server_key_or_empty_def)

section \<open>The webhook: unknown orders\<close>

text \<open>
  C7. A verified webhook whose order id no row of \<open>orders\<close> carries is answered 200 with
  the body \<open>{ok: true, ignored: true}\<close>, and the store is left as it was: no row of any
  table is inserted or updated.
\<close>

theorem unknown_order_acknowledged:
  assumes "verified e req st b pe"
    and "fault e Orders = None"
    and "\<forall>r \<in> set (orders st). o_midtrans_order_id r \<noteq> Some (trimmed (b_order_id b))"
  shows "webhook e req st = (Response 200 Json_ok_ignored, st)"
proof -
  have "lookup_order e st (trimmed (b_order_id b)) = Inr None"
    using assms(2,3) by (simp add: lookup_order_none)
  then show ?thesis
    using assms(1) by (simp add: webhook_verified)
qed

lemma sample_unknown_verified:
  "verified sample_env (post (notification (lit ''ORD-9'') (lit ''prod-key'') (lit ''settlement'')))
     sample_store (notification (lit ''ORD-9'') (lit ''prod-key'') (lit ''settlement'')) Production"
  by (simp add: sample_defs js_defs webhook_stage_defs)

theorem unknown_order_acknowledged_witness:
  "verified sample_env (post (notification (lit ''ORD-9'') (lit ''prod-key'') (lit ''settlement'')))
     sample_store (notification (lit ''ORD-9'') (lit ''prod-key'') (lit ''settlement'')) Production
   \<and> fault sample_env Orders = None
   \<and> list_all (\<lambda>r. o_midtrans_order_id r \<noteq> Some (lit ''ORD-9'')) (orders sample_store)
   \<and> webhook sample_env
       (post (notification (lit ''ORD-9'') (lit ''prod-key'') (lit ''settlement''))) sample_store
     = (Response 200 Json_ok_ignored, sample_store)"
proof -
  have f: "fault sample_env Orders = None"
    by (simp add: sample_env_def)
  have o: "\<forall>r \<in> set (orders sample_store). o_midtrans_order_id r \<noteq>
       Some (trimmed (b_order_id (notification (lit ''ORD-9'') (lit ''prod-key'') (lit ''settlement''))))"
    by (simp add: sample_defs js_defs)
  have o': "list_all (\<lambda>r. o_midtrans_order_id r \<noteq> Some (lit ''ORD-9'')) (orders sample_store)"
    by (simp add: sample_defs js_defs)
  show ?thesis
    using unknown_order_acknowledged [OF sample_unknown_verified f o] sample_unknown_verified f o'
    by simp
qed

section \<open>The webhook: the status written to the order\<close>

lemma order_status_cases:
  "(order_status ts = lit ''paid'') = (ts = Some (lit ''settlement'') \<or> ts = Some (lit ''capture''))"
  "(order_status ts = lit ''failed'') =
     (ts = Some (lit ''deny'') \<or> ts = Some (lit ''cancel'') \<or> ts = Some (lit ''expire''))"
  "(order_status ts = lit ''pending'') =
     (ts \<noteq> Some (lit ''settlement'') \<and> ts \<noteq> Some (lit ''capture'') \<and> ts \<noteq> Some (lit ''deny'')
      \<and> ts \<noteq> Some (lit ''cancel'') \<and> ts \<noteq> Some (lit ''expire''))"
  using lit_transaction_status_distinct
  by (auto simp: order_status_def paid_def failed_def lit_status_distinct)

text \<open>
  C2. For a verified webhook whose order id matches a stored order, the rows of
  \<open>orders\<close> with that order's id (the order is one of them) get the status \<open>paid\<close>
  exactly when the handler's \<open>transaction_status\<close> is \<open>settlement\<close> or \<open>capture\<close>,
  \<open>failed\<close> exactly when it is \<open>deny\<close>, \<open>cancel\<close> or \<open>expire\<close>, and \<open>pending\<close> for
  every other value; every other row of \<open>orders\<close> stays as it was.
\<close>

theorem order_status_updated:
  assumes "verified e req st b pe"
    and "lookup_order e st (trimmed (b_order_id b)) = Inr (Some order)"
  shows "order \<in> set (orders st)
    \<and> length (orders (snd (webhook e req st))) = length (orders st)
    \<and> (\<forall>i < length (orders st).
          if o_id (orders st ! i) = o_id order
          then (o_status (orders (snd (webhook e req st)) ! i) = lit ''paid''
                  \<longleftrightarrow> trimmed_or_null (b_transaction_status b) = Some (lit ''settlement'')
                      \<or> trimmed_or_null (b_transaction_status b) = Some (lit ''capture''))
             \<and> (o_status (orders (snd (webhook e req st)) ! i) = lit ''failed''
                  \<longleftrightarrow> trimmed_or_null (b_transaction_status b) = Some (lit ''deny'')
                      \<or> trimmed_or_null (b_transaction_status b) = Some (lit ''cancel'')
                      \<or> trimmed_or_null (b_transaction_status b) = Some (lit ''expire''))
             \<and> (o_status (orders (snd (webhook e req st)) ! i) = lit ''pending''
                  \<longleftrightarrow> trimmed_or_null (b_transaction_status b) \<noteq> Some (lit ''settlement'')
                      \<and> trimmed_or_null (b_transaction_status b) \<noteq> Some (lit ''capture'')
                      \<and> trimmed_or_null (b_transaction_status b) \<noteq> Some (lit ''deny'')
                      \<and> trimmed_or_null (b_transaction_status b) \<noteq> Some (lit ''cancel'')
                      \<and> trimmed_or_null (b_transaction_status b) \<noteq> Some (lit ''expire''))
          else orders (snd (webhook e req st)) ! i = orders st ! i)"
proof -
  have "o_status (updated_row pe b r) = order_status (trimmed_or_null (b_transaction_status b))"
    for r
    by (simp add: updated_row_def Let_def)
  then show ?thesis
    using lookup_order_some(3) [OF assms(2)]
    by (simp add: webhook_verified_orders [OF assms] order_status_cases)
qed

theorem order_status_updated_witness:
  "verified sample_env (post (notification (lit ''ORD-1'') (lit ''prod-key'') (lit ''settlement'')))
     sample_store (notification (lit ''ORD-1'') (lit ''prod-key'') (lit ''settlement'')) Production
   \<and> lookup_order sample_env sample_store (lit ''ORD-1'') = Inr (Some sample_order)
   \<and> orders sample_store ! 0 = sample_order
   \<and> o_status (orders (snd (webhook sample_env
         (post (notification (lit ''ORD-1'') (lit ''prod-key'') (lit ''settlement'')))
         sample_store)) ! 0) = lit ''paid''"
proof -
  let ?b = "notification (lit ''ORD-1'') (lit ''prod-key'') (lit ''settlement'')"
  have ts: "trimmed_or_null (b_transaction_status ?b) = Some (lit ''settlement'')"
    by (simp add: sample_defs js_defs)
  have l: "lookup_order sample_env sample_store (lit ''ORD-1'') = Inr (Some sample_order)"
    using sample_lookup [of "lit ''prod-key''" "lit ''settlement''"]
    by (simp add: sample_defs js_defs)
  have o: "orders sample_store ! 0 = sample_order" "0 < length (orders sample_store)"
    by (simp_all add: sample_store_def)
  from order_status_updated [OF sample_verified sample_lookup, of "lit ''settlement''"]
  have "o_status (orders (snd (webhook sample_env (post ?b) sample_store)) ! 0) = lit ''paid''"
    using o ts by auto
  then show ?thesis
    using sample_verified l o by simp
qed

section \<open>The webhook: the dates of the entitlement\<close>

text \<open>
  C4. Whenever a run of the webhook inserts a row into \<open>user_packages\<close>, the request
  is a verified one with a matched order, the row is appended last, its \<open>started_at\<close>
  and \<open>activated_at\<close> are the handler's current time, its \<open>duration_months\<close> is
  \<open>subscription_years * 12\<close>, and its \<open>expires_at\<close> is the date that
  \<open>setUTCMonth\<close> yields for the current time with \<open>subscription_years * 12\<close> added to
  its UTC month: the same day of the month and time of day, \<open>subscription_years\<close> years
  later (MakeDay carries a day the target month lacks into the next month).
\<close>

theorem entitlement_dates:
  assumes "user_packages (snd (webhook e req st)) \<noteq> user_packages st"
  shows "\<exists>b pe order row.
      verified e req st b pe
    \<and> lookup_order e st (trimmed (b_order_id b)) = Inr (Some order)
    \<and> user_packages (snd (webhook e req st)) = user_packages st @ [row]
    \<and> up_started_at row = now e \<and> up_activated_at row = now e
    \<and> up_duration_months row = subscription_years order * 12
    \<and> setUTCMonth (Some (now e)) (MonthFromTime (now e) + subscription_years order * 12)
        = Some (up_expires_at row)
    \<and> up_expires_at row =
        MakeDate (MakeDay (YearFromTime (now e) + subscription_years order)
                    (MonthFromTime (now e)) (DateFromTime (now e)))
          (TimeWithinDay (now e))"
proof -
  have "\<exists>b pe. verified e req st b pe"
  proof (rule ccontr)
    assume "\<not> (\<exists>b pe. verified e req st b pe)"
    then have "snd (webhook e req st) = st"
      by (intro webhook_unverified) blast
    with assms show False by simp
  qed
  then obtain b pe where v: "verified e req st b pe"
    by blast
  have "\<exists>order. lookup_order e st (trimmed (b_order_id b)) = Inr (Some order)"
  proof (rule ccontr)
    assume "\<not> (\<exists>order. lookup_order e st (trimmed (b_order_id b)) = Inr (Some order))"
    then have "snd (webhook e req st) = st"
      by (intro webhook_verified_unmatched [OF v]) blast
    with assms show False by simp
  qed
  then obtain order where l: "lookup_order e st (trimmed (b_order_id b)) = Inr (Some order)"
    by blast
  let ?x = "setUTCMonth (Some (now e)) (MonthFromTime (now e) + subscription_years order * 12)"
  note s = webhook_verified_store [OF v l]
  from assms s obtain p x where
    c: "paid (trimmed_or_null (b_transaction_status b))" "truthy (o_user_id order)"
       "subscription_years order > 0" "lookup_package e st = Inr p" "truthy p" "?x = Some x"
       "fault e User_packages = None"
    by (auto split: if_splits sum.splits option.splits)
  let ?row = "\<lparr>up_user_id = String_or_empty (o_user_id order),
                up_package_id = String_or_empty p,
                up_duration_months = subscription_years order * 12,
                up_started_at = now e, up_activated_at = now e,
                up_expires_at = x, up_status = lit ''active''\<rparr>"
  have "user_packages (snd (webhook e req st)) = user_packages st @ [?row]"
    using s c by simp
  moreover have "x = MakeDate (MakeDay (YearFromTime (now e) + subscription_years order)
                    (MonthFromTime (now e)) (DateFromTime (now e))) (TimeWithinDay (now e))"
    using c(6) by (rule setUTCMonth_years)
  ultimately show ?thesis
    using v l c(6) by (intro exI [of _ b] exI [of _ pe] exI [of _ order] exI [of _ ?row]) simp
qed

theorem entitlement_dates_witness:
  "user_packages (snd (webhook sample_env
      (post (notification (lit ''ORD-1'') (lit ''prod-key'') (lit ''settlement''))) sample_store))
     \<noteq> user_packages sample_store
   \<and> (\<exists>row. user_packages (snd (webhook sample_env
          (post (notification (lit ''ORD-1'') (lit ''prod-key'') (lit ''settlement'')))
          sample_store)) = user_packages sample_store @ [row]
        \<and> up_started_at row = 1793664000123 \<and> up_activated_at row = 1793664000123)
   \<and> up_expires_at (last (user_packages (snd (webhook sample_env
          (post (notification (lit ''ORD-1'') (lit ''prod-key'') (lit ''settlement'')))
          sample_store)))) = 1856822400123"
proof -
  let ?st = "snd (webhook sample_env
      (post (notification (lit ''ORD-1'') (lit ''prod-key'') (lit ''settlement''))) sample_store)"
  have n: "user_packages ?st \<noteq> user_packages sample_store"
    by (simp add: sample_webhook_store) (simp add: sample_store_def)
  have "now sample_env = 1793664000123"
    by (simp add: sample_env_def)
  moreover have "up_expires_at (last (user_packages ?st)) = 1856822400123"
    by (simp add: sample_webhook_store)
  ultimately show ?thesis
    using entitlement_dates [OF n] n by auto
qed

section \<open>The webhook: when an entitlement is granted\<close>

text \<open>
  C3, as the code has it. Take a verified webhook with a matched order, and call it
  \<^emph>\<open>entitled\<close> when the status written is \<open>paid\<close>, the order's \<open>user_id\<close> is neither
  null nor empty, \<open>subscription_years\<close> is positive, the lookup in
  \<open>domain_pricing_settings\<close> returns a \<open>default_package_id\<close> that is neither null nor
  empty, and the expiry date is a valid time value. A row is appended to
  \<open>user_packages\<close> (for the order's user and the configured package, with status
  \<open>active\<close> and \<open>duration_months = subscription_years * 12\<close>) exactly when the webhook
  is entitled and the store accepts the insert; the profile rows of that user are marked
  \<open>active\<close> and \<open>payment_active\<close> exactly when the webhook is entitled and the store
  accepts that update. The handler reads neither reply, so each of the two writes takes
  effect or not on its own. In every other case, and for every request that is not a
  verified webhook with a matched order, \<open>user_packages\<close> and \<open>profiles\<close> stay as they
  were.
\<close>

theorem entitlement_granted_iff:
  "(\<forall>b pe order.
      verified e req st b pe \<longrightarrow>
      lookup_order e st (trimmed (b_order_id b)) = Inr (Some order) \<longrightarrow>
      (if order_status (trimmed_or_null (b_transaction_status b)) = lit ''paid''
          \<and> o_user_id order \<noteq> None \<and> o_user_id order \<noteq> Some []
          \<and> subscription_years order > 0
          \<and> (\<exists>p. lookup_package e st = Inr (Some p) \<and> p \<noteq> [])
          \<and> setUTCMonth (Some (now e))
                (MonthFromTime (now e) + subscription_years order * 12) \<noteq> None
       then (if fault e User_packages = None
             then (\<exists>row. user_packages (snd (webhook e req st)) = user_packages st @ [row]
                     \<and> o_user_id order = Some (up_user_id row)
                     \<and> lookup_package e st = Inr (Some (up_package_id row))
                     \<and> up_status row = lit ''active''
                     \<and> up_duration_months row = subscription_years order * 12)
             else user_packages (snd (webhook e req st)) = user_packages st)
            \<and> (if fault e Profiles = None
               then profiles (snd (webhook e req st)) =
                      map (\<lambda>r. if Some (pr_id r) = o_user_id order
                                then r\<lparr>pr_account_status := lit ''active'',
                                       pr_payment_active := True,
                                       pr_updated_at := now e\<rparr>
                                else r)
                        (profiles st)
               else profiles (snd (webhook e req st)) = profiles st)
       else user_packages (snd (webhook e req st)) = user_packages st
            \<and> profiles (snd (webhook e req st)) = profiles st))
   \<and> ((\<forall>b pe order.
          verified e req st b pe \<longrightarrow>
          lookup_order e st (trimmed (b_order_id b)) \<noteq> Inr (Some order)) \<longrightarrow>
        user_packages (snd (webhook e req st)) = user_packages st
        \<and> profiles (snd (webhook e req st)) = profiles st)"
proof (intro conjI allI impI)
  fix b pe order
  assume v: "verified e req st b pe"
    and l: "lookup_order e st (trimmed (b_order_id b)) = Inr (Some order)"
  have t: "truthy x \<longleftrightarrow> x \<noteq> None \<and> x \<noteq> Some []" for x
    by (cases x) (simp_all add: truthy_def)
  have p: "(\<exists>p. lookup_package e st = Inr (Some p) \<and> p \<noteq> []) \<longleftrightarrow>
           (case lookup_package e st of Inl err \<Rightarrow> False | Inr p \<Rightarrow> truthy p)"
    by (auto simp: truthy_def split: sum.splits option.splits)
  show "if order_status (trimmed_or_null (b_transaction_status b)) = lit ''paid''
          \<and> o_user_id order \<noteq> None \<and> o_user_id order \<noteq> Some []
          \<and> subscription_years order > 0
          \<and> (\<exists>p. lookup_package e st = Inr (Some p) \<and> p \<noteq> [])
          \<and> setUTCMonth (Some (now e))
                (MonthFromTime (now e) + subscription_years order * 12) \<noteq> None
       then (if fault e User_packages = None
             then (\<exists>row. user_packages (snd (webhook e req st)) = user_packages st @ [row]
                     \<and> o_user_id order = Some (up_user_id row)
                     \<and> lookup_package e st = Inr (Some (up_package_id row))
                     \<and> up_status row = lit ''active''
                     \<and> up_duration_months row = subscription_years order * 12)
             else user_packages (snd (webhook e req st)) = user_packages st)
            \<and> (if fault e Profiles = None
               then profiles (snd (webhook e req st)) =
                      map (\<lambda>r. if Some (pr_id r) = o_user_id order
                                then r\<lparr>pr_account_status := lit ''active'',
                                       pr_payment_active := True,
                                       pr_updated_at := now e\<rparr>
                                else r)
                        (profiles st)
               else profiles (snd (webhook e req st)) = profiles st)
       else user_packages (snd (webhook e req st)) = user_packages st
            \<and> profiles (snd (webhook e req st)) = profiles st"
    unfolding p order_status_cases(1) paid_def [symmetric] t [symmetric]
    by (auto simp: webhook_verified_store [OF v l] truthy_def String_or_empty_def
        split: sum.splits option.splits)
next
  assume n: "\<forall>b pe order. verified e req st b pe \<longrightarrow>
               lookup_order e st (trimmed (b_order_id b)) \<noteq> Inr (Some order)"
  have "snd (webhook e req st) = st"
  proof (cases "\<exists>b pe. verified e req st b pe")
    case True
    then obtain b pe where v: "verified e req st b pe"
      by blast
    show ?thesis
      using n v by (intro webhook_verified_unmatched [OF v]) blast
  next
    case False
    then show ?thesis
      by (intro webhook_unverified) blast
  qed
  then show "user_packages (snd (webhook e req st)) = user_packages st"
    and "profiles (snd (webhook e req st)) = profiles st"
    by simp_all
qed

theorem entitlement_granted_iff_witness:
  "verified sample_env (post (notification (lit ''ORD-1'') (lit ''prod-key'') (lit ''settlement'')))
     sample_store (notification (lit ''ORD-1'') (lit ''prod-key'') (lit ''settlement'')) Production
   \<and> lookup_order sample_env sample_store (lit ''ORD-1'') = Inr (Some sample_order)
   \<and> fault sample_env User_packages = None \<and> fault sample_env Profiles = None
   \<and> (\<exists>row. user_packages (snd (webhook sample_env
          (post (notification (lit ''ORD-1'') (lit ''prod-key'') (lit ''settlement'')))
          sample_store)) = [row]
        \<and> up_user_id row = lit ''u1'' \<and> up_package_id row = lit ''pkg1''
        \<and> up_status row = lit ''active'' \<and> up_duration_months row = 24)
   \<and> profiles (snd (webhook sample_env
          (post (notification (lit ''ORD-1'') (lit ''prod-key'') (lit ''settlement'')))
          sample_store))
      = [\<lparr>pr_id = lit ''u1'', pr_account_status = lit ''active'',
          pr_payment_active = True, pr_updated_at = 1793664000123\<rparr>]"
proof -
  let ?b = "notification (lit ''ORD-1'') (lit ''prod-key'') (lit ''settlement'')"
  have l: "lookup_order sample_env sample_store (lit ''ORD-1'') = Inr (Some sample_order)"
    using sample_lookup [of "lit ''prod-key''" "lit ''settlement''"]
    by (simp add: sample_defs js_defs)
  have c: "order_status (trimmed_or_null (b_transaction_status ?b)) = lit ''paid''"
    "o_user_id sample_order = Some (lit ''u1'')" "lit ''u1'' \<noteq> []"
    "subscription_years sample_order = 2" "lit ''pkg1'' \<noteq> []"
    "user_packages sample_store = []" "now sample_env = 1793664000123"
    "profiles sample_store = [\<lparr>pr_id = lit ''u1'', pr_account_status = lit ''pending'',
                   pr_payment_active = False, pr_updated_at = 0\<rparr>]"
    "fault sample_env User_packages = None" "fault sample_env Profiles = None"
    using sample_paid [of "lit ''ORD-1''" "lit ''prod-key''"]
    by (simp_all add: order_status_def sample_order_def sample_store_def sample_env_def
        subscription_years_def lit_def)
  have cond: "order_status (trimmed_or_null (b_transaction_status ?b)) = lit ''paid''
      \<and> o_user_id sample_order \<noteq> None \<and> o_user_id sample_order \<noteq> Some []
      \<and> subscription_years sample_order > 0
      \<and> (\<exists>p. lookup_package sample_env sample_store = Inr (Some p) \<and> p \<noteq> [])
      \<and> setUTCMonth (Some (now sample_env))
            (MonthFromTime (now sample_env) + subscription_years sample_order * 12) \<noteq> None"
    using c(1,2,3,4,5) sample_package sample_expiry by simp
  note g = entitlement_granted_iff [of sample_env "post ?b" sample_store, THEN conjunct1,
      rule_format, OF sample_verified [of "lit ''settlement''"]
        sample_lookup [of "lit ''prod-key''" "lit ''settlement''"], unfolded if_P [OF cond],
      unfolded if_P [OF c(9)] if_P [OF c(10)]]
  from g
  have "(\<exists>row. user_packages (snd (webhook sample_env (post ?b) sample_store)) = [row]
           \<and> up_user_id row = lit ''u1'' \<and> up_package_id row = lit ''pkg1''
           \<and> up_status row = lit ''active'' \<and> up_duration_months row = 24)
        \<and> profiles (snd (webhook sample_env (post ?b) sample_store))
           = [\<lparr>pr_id = lit ''u1'', pr_account_status = lit ''active'',
               pr_payment_active = True, pr_updated_at = 1793664000123\<rparr>]"
    by (auto simp: c sample_package)
  then show ?thesis
    using sample_verified l c(9,10) by simp
qed

text \<open>
  C3 as stated fails: a paid order of a user, with a positive \<open>subscription_years\<close>
  (300000) and a configured package, gets no entitlement when the expiry date leaves the
  range of time values (the run ends in 500 after the order was marked \<open>paid\<close>); an
  order whose \<open>user_id\<close> is the empty string, which is not null, gets none either; and
  when the store refuses the insert into \<open>user_packages\<close>, the paid order of the sample
  gets no entitlement row, while its profile is marked active and the answer is 200.
\<close>

theorem entitlement_granted_iff_counterexample:
  "order_status (trimmed_or_null (b_transaction_status
      (notification (lit ''ORD-1'') (lit ''prod-key'') (lit ''settlement'')))) = lit ''paid''
   \<and> o_user_id (sample_order\<lparr>o_subscription_years := Some 300000\<rparr>) = Some (lit ''u1'')
   \<and> subscription_years (sample_order\<lparr>o_subscription_years := Some 300000\<rparr>) = 300000
   \<and> lookup_package sample_env
        (sample_store\<lparr>orders := [sample_order\<lparr>o_subscription_years := Some 300000\<rparr>]\<rparr>)
      = Inr (Some (lit ''pkg1''))
   \<and> fst (webhook sample_env
        (post (notification (lit ''ORD-1'') (lit ''prod-key'') (lit ''settlement'')))
        (sample_store\<lparr>orders := [sample_order\<lparr>o_subscription_years := Some 300000\<rparr>]\<rparr>))
      = Response 500 (Json_error (lit ''Invalid time value''))
   \<and> user_packages (snd (webhook sample_env
        (post (notification (lit ''ORD-1'') (lit ''prod-key'') (lit ''settlement'')))
        (sample_store\<lparr>orders := [sample_order\<lparr>o_subscription_years := Some 300000\<rparr>]\<rparr>)))
      = []
   \<and> map o_status (orders (snd (webhook sample_env
        (post (notification (lit ''ORD-1'') (lit ''prod-key'') (lit ''settlement'')))
        (sample_store\<lparr>orders := [sample_order\<lparr>o_subscription_years := Some 300000\<rparr>]\<rparr>))))
      = [lit ''paid'']
   \<and> o_user_id (sample_order\<lparr>o_user_id := Some []\<rparr>) \<noteq> None
   \<and> webhook sample_env
        (post (notification (lit ''ORD-1'') (lit ''prod-key'') (lit ''settlement'')))
        (sample_store\<lparr>orders := [sample_order\<lparr>o_user_id := Some []\<rparr>]\<rparr>)
      = (Response 200 Json_ok,
         update_order Production
           (notification (lit ''ORD-1'') (lit ''prod-key'') (lit ''settlement''))
           (sample_order\<lparr>o_user_id := Some []\<rparr>)
           (sample_store\<lparr>orders := [sample_order\<lparr>o_user_id := Some []\<rparr>]\<rparr>))
   \<and> user_packages (update_order Production
           (notification (lit ''ORD-1'') (lit ''prod-key'') (lit ''settlement''))
           (sample_order\<lparr>o_user_id := Some []\<rparr>)
           (sample_store\<lparr>orders := [sample_order\<lparr>o_user_id := Some []\<rparr>]\<rparr>)) = []
   \<and> o_user_id sample_order = Some (lit ''u1'')
   \<and> subscription_years sample_order = 2
   \<and> lookup_package
        (sample_env\<lparr>fault := (\<lambda>t. if t = User_packages
           then Some (Thrown False (lit ''insert refused'') (lit ''[object Object]''))
           else None)\<rparr>)
        sample_store
      = Inr (Some (lit ''pkg1''))
   \<and> fst (webhook
        (sample_env\<lparr>fault := (\<lambda>t. if t = User_packages
           then Some (Thrown False (lit ''insert refused'') (lit ''[object Object]''))
           else None)\<rparr>)
        (post (notification (lit ''ORD-1'') (lit ''prod-key'') (lit ''settlement'')))
        sample_store)
      = Response 200 Json_ok
   \<and> user_packages (snd (webhook
        (sample_env\<lparr>fault := (\<lambda>t. if t = User_packages
           then Some (Thrown False (lit ''insert refused'') (lit ''[object Object]''))
           else None)\<rparr>)
        (post (notification (lit ''ORD-1'') (lit ''prod-key'') (lit ''settlement'')))
        sample_store))
      = []
   \<and> profiles (snd (webhook
        (sample_env\<lparr>fault := (\<lambda>t. if t = User_packages
           then Some (Thrown False (lit ''insert refused'') (lit ''[object Object]''))
           else None)\<rparr>)
        (post (notification (lit ''ORD-1'') (lit ''prod-key'') (lit ''settlement'')))
        sample_store))
      = [\<lparr>pr_id = lit ''u1'', pr_account_status = lit ''active'',
          pr_payment_active = True, pr_updated_at = 1793664000123\<rparr>]"
proof -
  let ?b = "notification (lit ''ORD-1'') (lit ''prod-key'') (lit ''settlement'')"
  let ?far = "sample_order\<lparr>o_subscription_years := Some 300000\<rparr>"
  let ?blank = "sample_order\<lparr>o_user_id := Some []\<rparr>"
  let ?refusing = "sample_env\<lparr>fault := (\<lambda>t. if t = User_packages
           then Some (Thrown False (lit ''insert refused'') (lit ''[object Object]''))
           else None)\<rparr>"
  have m: "o_midtrans_order_id ?far = Some (lit ''ORD-1'')"
    "o_midtrans_order_id ?blank = Some (lit ''ORD-1'')"
    by (simp_all add: sample_order_def)
  note v = sample_verified_orders [of "lit ''settlement''"]
  note lf = sample_lookup_orders [OF m(1), of "lit ''prod-key''" "lit ''settlement''"]
  note lb = sample_lookup_orders [OF m(2), of "lit ''prod-key''" "lit ''settlement''"]
  have c: "order_status (trimmed_or_null (b_transaction_status ?b)) = lit ''paid''"
    "o_user_id ?far = Some (lit ''u1'')" "subscription_years ?far = 300000"
    "truthy (Some (lit ''u1''))" "\<not> truthy (Some [])" "o_user_id ?blank \<noteq> None"
    "truthy (Some (lit ''pkg1''))"
    using sample_paid [of "lit ''ORD-1''" "lit ''prod-key''"]
    by (simp_all add: order_status_def sample_order_def subscription_years_def truthy_def lit_def)
  have u: "user_packages (sample_store\<lparr>orders := os\<rparr>) = []" for os
    by (simp add: sample_store_def)
  have a: "activate sample_env ?b ?far
             (update_order Production ?b ?far (sample_store\<lparr>orders := [?far]\<rparr>))
           = (Inl invalid_time_value,
              update_order Production ?b ?far (sample_store\<lparr>orders := [?far]\<rparr>))"
    using far_expiry sample_paid [of "lit ''ORD-1''" "lit ''prod-key''"]
    by (simp add: activate_eq grant_package_eq c sample_package_orders)
  have a': "activate sample_env ?b ?blank
             (update_order Production ?b ?blank (sample_store\<lparr>orders := [?blank]\<rparr>))
           = (Inr (), update_order Production ?b ?blank (sample_store\<lparr>orders := [?blank]\<rparr>))"
    by (simp add: activate_eq c)
  have r: "fst (webhook sample_env (post ?b) (sample_store\<lparr>orders := [?far]\<rparr>))
             = Response 500 (Json_error (lit ''Invalid time value''))"
    by (simp add: webhook_verified_response [OF v lf] a caught_message_def invalid_time_value_def)
  have s: "snd (webhook sample_env (post ?b) (sample_store\<lparr>orders := [?far]\<rparr>))
             = update_order Production ?b ?far (sample_store\<lparr>orders := [?far]\<rparr>)"
    by (simp add: webhook_verified [OF v] lf a)
  have o: "map o_status (orders (update_order Production ?b ?far
             (sample_store\<lparr>orders := [?far]\<rparr>))) = [lit ''paid'']"
    using c(1) by (simp add: orders_update_order updated_row_def Let_def)
  have w: "webhook sample_env (post ?b) (sample_store\<lparr>orders := [?blank]\<rparr>)
             = (Response 200 Json_ok,
                update_order Production ?b ?blank (sample_store\<lparr>orders := [?blank]\<rparr>))"
    by (simp add: webhook_verified [OF v] lb a')
  have vr: "verified ?refusing (post ?b) sample_store ?b Production"
    by (simp add: sample_defs js_defs webhook_stage_defs)
  have lr: "lookup_order ?refusing sample_store (trimmed (b_order_id ?b))
              = Inr (Some sample_order)"
    by (simp add: sample_defs js_defs webhook_stage_defs)
  have pr: "lookup_package ?refusing sample_store = Inr (Some (lit ''pkg1''))"
    by (simp add: lookup_package_def maybeSingle_def sample_env_def sample_store_def)
  have d: "o_user_id sample_order = Some (lit ''u1'')" "subscription_years sample_order = 2"
    "String_or_empty (Some (lit ''u1'')) = lit ''u1''"
    "profiles sample_store = [\<lparr>pr_id = lit ''u1'', pr_account_status = lit ''pending'',
                   pr_payment_active = False, pr_updated_at = 0\<rparr>]"
    "now ?refusing = 1793664000123"
    by (simp_all add: sample_order_def sample_store_def sample_env_def subscription_years_def
        String_or_empty_def)
  have er: "setUTCMonth (Some (now ?refusing))
              (MonthFromTime (now ?refusing) + subscription_years sample_order * 12)
            = Some 1856822400123"
    using sample_expiry by simp
  have ar: "fst (activate ?refusing ?b sample_order
                   (update_order Production ?b sample_order sample_store)) = Inr ()"
    using er sample_paid [of "lit ''ORD-1''" "lit ''prod-key''"]
    by (simp add: activate_eq grant_package_eq c pr d(1,2))
  have rr: "fst (webhook ?refusing (post ?b) sample_store) = Response 200 Json_ok"
    by (simp add: webhook_verified_response [OF vr lr] ar)
  have sr: "snd (webhook ?refusing (post ?b) sample_store) =
      (update_order Production ?b sample_order sample_store)
        \<lparr>user_packages := [],
         profiles := [\<lparr>pr_id = lit ''u1'', pr_account_status = lit ''active'',
                       pr_payment_active = True, pr_updated_at = 1793664000123\<rparr>]\<rparr>"
    using er sample_paid [of "lit ''ORD-1''" "lit ''prod-key''"]
    by (simp add: webhook_verified_store [OF vr lr] c pr d u [of "orders sample_store", simplified])
  show ?thesis
    using c(1,2,3,6) sample_package_orders r w d(1,2) pr rr
    by (simp add: s o u sr)
qed

section \<open>The webhook: processing a request twice\<close>

text \<open>
  C5, as the code has it. Processing the same request twice leaves the \<open>orders\<close> table
  as processing it once does, whatever the time of the second run. With the clock equal,
  the whole store is the same after the second run when the first run appends no
  entitlement row; when it appends one, the second run appends the same
  \<open>user_packages\<close> row once more (the profiles stay as the first run left them).
\<close>

theorem webhook_twice:
  "orders (snd (webhook (e\<lparr>now := t\<rparr>) req (snd (webhook e req st))))
     = orders (snd (webhook e req st))
   \<and> (user_packages (snd (webhook e req st)) = user_packages st \<longrightarrow>
        snd (webhook e req (snd (webhook e req st))) = snd (webhook e req st))
   \<and> (user_packages (snd (webhook e req st)) \<noteq> user_packages st \<longrightarrow>
        user_packages (snd (webhook e req (snd (webhook e req st))))
          = user_packages (snd (webhook e req st)) @ [last (user_packages (snd (webhook e req st)))]
        \<and> profiles (snd (webhook e req (snd (webhook e req st))))
          = profiles (snd (webhook e req st)))"
proof (cases rule: webhook_cases [of e req st])
  case unmatched
  have "snd (webhook (e\<lparr>now := t\<rparr>) req st) = st" for t
    using unmatched by (rule webhook_again_unmatched)
  from this [of t] this [of "now e"] show ?thesis
    by (simp add: unmatched(1))
next
  case (matched b pe order)
  note first = webhook_verified_store [OF matched]
  have 1: "orders (snd (webhook (e\<lparr>now := t\<rparr>) req (snd (webhook e req st))))
     = orders (snd (webhook e req st))"
    by (simp add: webhook_again_store [OF matched, of t] split: sum.splits option.splits)
  have e: "e\<lparr>now := now e\<rparr> = e"
    by simp
  note same = webhook_again_store [OF matched, of "now e", unfolded e]
  let ?st1 = "snd (webhook e req st)"
  have 23: "(user_packages ?st1 = user_packages st \<longrightarrow> snd (webhook e req ?st1) = ?st1)
     \<and> (user_packages ?st1 \<noteq> user_packages st \<longrightarrow>
          user_packages (snd (webhook e req ?st1)) = user_packages ?st1 @ [last (user_packages ?st1)]
          \<and> profiles (snd (webhook e req ?st1)) = profiles ?st1)"
  proof (cases "paid (trimmed_or_null (b_transaction_status b)) \<and> truthy (o_user_id order)
      \<and> subscription_years order > 0
      \<and> (\<exists>p x. lookup_package e st = Inr p \<and> truthy p
            \<and> setUTCMonth (Some (now e)) (MonthFromTime (now e) + subscription_years order * 12)
                = Some x)")
    case True
    then obtain p x where
      c: "paid (trimmed_or_null (b_transaction_status b))" "truthy (o_user_id order)"
         "subscription_years order > 0" "lookup_package e st = Inr p" "truthy p"
         "setUTCMonth (Some (now e)) (MonthFromTime (now e) + subscription_years order * 12)
            = Some x"
      by blast
    let ?row = "\<lparr>up_user_id = String_or_empty (o_user_id order),
                  up_package_id = String_or_empty p,
                  up_duration_months = subscription_years order * 12,
                  up_started_at = now e, up_activated_at = now e,
                  up_expires_at = x, up_status = lit ''active''\<rparr>"
    let ?mark = "\<lambda>r. if pr_id r = String_or_empty (o_user_id order)
                   then r\<lparr>pr_account_status := lit ''active'', pr_payment_active := True,
                          pr_updated_at := now e\<rparr>
                   else r"
    have f: "user_packages ?st1 =
               (if fault e User_packages = None then user_packages st @ [?row]
                else user_packages st)"
      "profiles ?st1 =
         (if fault e Profiles = None then map ?mark (profiles st) else profiles st)"
      using c by (simp_all add: first)
    have g: "snd (webhook e req ?st1) =
        ?st1\<lparr>user_packages :=
                (if fault e User_packages = None then user_packages ?st1 @ [?row]
                 else user_packages ?st1),
              profiles :=
                (if fault e Profiles = None then map ?mark (profiles ?st1)
                 else profiles ?st1)\<rparr>"
      using c by (simp add: same)
    have q: "(if fault e Profiles = None then map ?mark (profiles ?st1) else profiles ?st1)
               = profiles ?st1"
      unfolding f(2) by (simp add: comp_def cong: if_cong)
    have unchanged: "st' = st''" if "st' = st''\<lparr>user_packages := u, profiles := ps\<rparr>"
      and "u = user_packages st''" and "ps = profiles st''" for st' st'' :: store and u ps
      using that by simp
    have pf: "profiles (snd (webhook e req ?st1)) = profiles ?st1"
      by (subst g, simp only: q, simp)
    show ?thesis
    proof (cases "fault e User_packages = None")
      case True
      have "user_packages (snd (webhook e req ?st1)) = user_packages ?st1 @ [?row]"
        by (subst g) (simp add: True)
      moreover have "user_packages ?st1 = user_packages st @ [?row]"
        using f(1) True by simp
      ultimately show ?thesis
        using pf by simp
    next
      case False
      have "(if fault e User_packages = None then user_packages ?st1 @ [?row]
             else user_packages ?st1) = user_packages ?st1"
        using False by simp
      then have "snd (webhook e req ?st1) = ?st1"
        using q by (rule unchanged [OF g])
      moreover have "user_packages ?st1 = user_packages st"
        using f(1) False by simp
      ultimately show ?thesis
        by simp
    qed
  next
    case False
    then have "?st1 = update_order pe b order st"
      by (auto simp: first split: sum.splits option.splits)
    moreover from False have "snd (webhook e req ?st1) = ?st1"
      unfolding same by (auto split: sum.splits option.splits)
    ultimately show ?thesis
      by simp
  qed
  from 1 23 show ?thesis
    by blast
qed


lemma sample_webhook_twice:
  "user_packages (snd (webhook sample_env
      (post (notification (lit ''ORD-1'') (lit ''prod-key'') (lit ''settlement'')))
      (snd (webhook sample_env
         (post (notification (lit ''ORD-1'') (lit ''prod-key'') (lit ''settlement'')))
         sample_store))))
   = [\<lparr>up_user_id = lit ''u1'', up_package_id = lit ''pkg1'', up_duration_months = 24,
       up_started_at = 1793664000123, up_activated_at = 1793664000123,
       up_expires_at = 1856822400123, up_status = lit ''active''\<rparr>,
      \<lparr>up_user_id = lit ''u1'', up_package_id = lit ''pkg1'', up_duration_months = 24,
       up_started_at = 1793664000123, up_activated_at = 1793664000123,
       up_expires_at = 1856822400123, up_status = lit ''active''\<rparr>]"
proof -
  have e: "sample_env\<lparr>now := now sample_env\<rparr> = sample_env"
    by simp
  have u: "truthy (o_user_id sample_order)" "String_or_empty (o_user_id sample_order) = lit ''u1''"
    "subscription_years sample_order = 2"
    by (simp_all add: sample_order_def truthy_def String_or_empty_def lit_def subscription_years_def)
  have p: "truthy (Some (lit ''pkg1''))" "String_or_empty (Some (lit ''pkg1'')) = lit ''pkg1''"
    by (simp_all add: truthy_def String_or_empty_def lit_def)
  have n: "now sample_env = 1793664000123"
    "fault sample_env User_packages = None" "fault sample_env Profiles = None"
    by (simp_all add: sample_env_def)
  show ?thesis
    using sample_expiry
    by (simp add: webhook_again_store [OF sample_verified [of "lit ''settlement''"]
          sample_lookup [of "lit ''prod-key''" "lit ''settlement''"],
          where t = "now sample_env", unfolded e] sample_paid sample_package u p n(2,3))
       (simp add: sample_webhook_store n)
qed

theorem webhook_twice_witness:
  "user_packages (snd (webhook sample_env
      (post (notification (lit ''ORD-1'') (lit ''prod-key'') (lit ''settlement''))) sample_store))
     \<noteq> user_packages sample_store
   \<and> orders (snd (webhook sample_env
        (post (notification (lit ''ORD-1'') (lit ''prod-key'') (lit ''settlement'')))
        (snd (webhook sample_env
           (post (notification (lit ''ORD-1'') (lit ''prod-key'') (lit ''settlement'')))
           sample_store))))
      = orders (snd (webhook sample_env
          (post (notification (lit ''ORD-1'') (lit ''prod-key'') (lit ''settlement'')))
          sample_store))
   \<and> length (user_packages (snd (webhook sample_env
        (post (notification (lit ''ORD-1'') (lit ''prod-key'') (lit ''settlement'')))
        (snd (webhook sample_env
           (post (notification (lit ''ORD-1'') (lit ''prod-key'') (lit ''settlement'')))
           sample_store))))) = 2"
proof -
  let ?r = "post (notification (lit ''ORD-1'') (lit ''prod-key'') (lit ''settlement''))"
  have e: "sample_env\<lparr>now := now sample_env\<rparr> = sample_env"
    by simp
  have n: "user_packages (snd (webhook sample_env ?r sample_store)) \<noteq> user_packages sample_store"
    by (simp add: sample_webhook_store) (simp add: sample_store_def)
  have l: "length (user_packages (snd (webhook sample_env ?r sample_store))) = 1"
    by (simp add: sample_webhook_store)
  from webhook_twice [where e = sample_env and t = "now sample_env" and req = ?r
      and st = sample_store, unfolded e] n l
  show ?thesis
    by simp
qed

text \<open>
  C5 as stated fails: processing the sample notification of a settled payment twice
  leaves two \<open>user_packages\<close> rows where processing it once leaves one.
\<close>

theorem webhook_twice_counterexample:
  "length (user_packages (snd (webhook sample_env
      (post (notification (lit ''ORD-1'') (lit ''prod-key'') (lit ''settlement'')))
      sample_store))) = 1
   \<and> length (user_packages (snd (webhook sample_env
        (post (notification (lit ''ORD-1'') (lit ''prod-key'') (lit ''settlement'')))
        (snd (webhook sample_env
           (post (notification (lit ''ORD-1'') (lit ''prod-key'') (lit ''settlement'')))
           sample_store))))) = 2
   \<and> snd (webhook sample_env
        (post (notification (lit ''ORD-1'') (lit ''prod-key'') (lit ''settlement'')))
        (snd (webhook sample_env
           (post (notification (lit ''ORD-1'') (lit ''prod-key'') (lit ''settlement'')))
           sample_store)))
      \<noteq> snd (webhook sample_env
          (post (notification (lit ''ORD-1'') (lit ''prod-key'') (lit ''settlement'')))
          sample_store)"
proof -
  let ?r = "post (notification (lit ''ORD-1'') (lit ''prod-key'') (lit ''settlement''))"
  have 1: "length (user_packages (snd (webhook sample_env ?r sample_store))) = 1"
    by (simp add: sample_webhook_store)
  have 2: "length (user_packages (snd (webhook sample_env ?r
             (snd (webhook sample_env ?r sample_store))))) = 2"
    by (simp add: sample_webhook_twice)
  from 1 2 have "snd (webhook sample_env ?r (snd (webhook sample_env ?r sample_store)))
      \<noteq> snd (webhook sample_env ?r sample_store)"
    by auto
  with 1 2 show ?thesis
    by simp
qed

section \<open>The webhook: the signature check\<close>

text \<open>
  C1, as the code has it. For a request that is not a preflight, in a configured
  deployment, whose JSON body has the four fields non-empty after trimming, the signature
  check accepts (the answer is not the 401) exactly when the lowercase hexadecimal digest
  of the trimmed \<open>order_id\<close>, \<open>status_code\<close> and \<open>gross_amount\<close> followed by a
  server key equals the trimmed \<open>signature_key\<close>, for the production key or for the
  sandbox key; the environment is production when the production key verifies and
  sandbox only when it does not and the sandbox key verifies. The server key of an
  environment is the trimmed \<open>ciphertext\<close> of the one \<open>integration_secrets\<close> row of
  provider \<open>midtrans\<close> with that environment's name, if its \<open>iv\<close> is \<open>plain\<close>; a
  key whose lookup fails, that is missing or that is empty after trimming is not tried.
\<close>

theorem signature_check:
  assumes "req_method req \<noteq> lit ''OPTIONS''" "truthy (SUPABASE_URL e)"
    "truthy (SUPABASE_SERVICE_ROLE_KEY e)" "req_json req = Inr b"
    "trimmed (b_order_id b) \<noteq> []" "trimmed (b_status_code b) \<noteq> []"
    "trimmed (b_gross_amount b) \<noteq> []" "trimmed (b_signature_key b) \<noteq> []"
  shows "(status (fst (webhook e req st)) \<noteq> 401 \<longleftrightarrow>
            (server_key_or_empty e st Production \<noteq> []
             \<and> sha512Hex (digest e)
                 (trimmed (b_order_id b) @ trimmed (b_status_code b) @ trimmed (b_gross_amount b)
                  @ server_key_or_empty e st Production) = trimmed (b_signature_key b))
          \<or> (server_key_or_empty e st Sandbox \<noteq> []
             \<and> sha512Hex (digest e)
                 (trimmed (b_order_id b) @ trimmed (b_status_code b) @ trimmed (b_gross_amount b)
                  @ server_key_or_empty e st Sandbox) = trimmed (b_signature_key b)))
    \<and> (verified e req st b Production \<longleftrightarrow>
          server_key_or_empty e st Production \<noteq> []
          \<and> sha512Hex (digest e)
              (trimmed (b_order_id b) @ trimmed (b_status_code b) @ trimmed (b_gross_amount b)
               @ server_key_or_empty e st Production) = trimmed (b_signature_key b))
    \<and> (verified e req st b Sandbox \<longleftrightarrow>
          \<not> (server_key_or_empty e st Production \<noteq> []
             \<and> sha512Hex (digest e)
                 (trimmed (b_order_id b) @ trimmed (b_status_code b) @ trimmed (b_gross_amount b)
                  @ server_key_or_empty e st Production) = trimmed (b_signature_key b))
          \<and> server_key_or_empty e st Sandbox \<noteq> []
          \<and> sha512Hex (digest e)
              (trimmed (b_order_id b) @ trimmed (b_status_code b) @ trimmed (b_gross_amount b)
               @ server_key_or_empty e st Sandbox) = trimmed (b_signature_key b))
    \<and> (\<forall>pe. server_key_or_empty e st pe =
          (case fault e Integration_secrets of
             Some err \<Rightarrow> []
           | None \<Rightarrow>
               (case filter (\<lambda>r. s_provider r = lit ''midtrans''
                                 \<and> s_name r = (if pe = Sandbox then lit ''server_key_sandbox''
                                               else lit ''server_key_production''))
                       (integration_secrets st) of
                  [r] \<Rightarrow> if s_iv r = Some (lit ''plain'')
                         then trim (String_or_empty (s_ciphertext r)) else []
                | _ \<Rightarrow> [])))
    \<and> (\<forall>input. length (sha512Hex (digest e) input) = 2 * length (digest e input)
          \<and> set (sha512Hex (digest e) input) \<subseteq> set (lit ''0123456789abcdef''))"
proof -
  let ?oid = "trimmed (b_order_id b)" and ?sc = "trimmed (b_status_code b)"
  let ?ga = "trimmed (b_gross_amount b)" and ?sk = "trimmed (b_signature_key b)"
  let ?P = "server_key_or_empty e st Production \<noteq> []
     \<and> sha512Hex (digest e) (?oid @ ?sc @ ?ga @ server_key_or_empty e st Production) = ?sk"
  let ?S = "server_key_or_empty e st Sandbox \<noteq> []
     \<and> sha512Hex (digest e) (?oid @ ?sc @ ?ga @ server_key_or_empty e st Sandbox) = ?sk"
  note s = signature_env_eq [of e st ?oid ?sc ?ga ?sk]
  have v: "verified e req st b pe \<longleftrightarrow> signature_env e st ?oid ?sc ?ga ?sk = Some pe" for pe
    using assms by (simp add: verified_def)
  have p: "verified e req st b Production \<longleftrightarrow> ?P"
    unfolding v s by simp
  have sb: "verified e req st b Sandbox \<longleftrightarrow> \<not> ?P \<and> ?S"
    unfolding v s by simp
  have a: "status (fst (webhook e req st)) \<noteq> 401 \<longleftrightarrow> ?P \<or> ?S"
  proof (cases "?P \<or> ?S")
    case True
    then have "verified e req st b Production \<or> verified e req st b Sandbox"
      using p sb by blast
    then show ?thesis
      using True webhook_verified_status by blast
  next
    case False
    then have "signature_env e st ?oid ?sc ?ga ?sk = None"
      unfolding s by simp
    then show ?thesis
      using False by (simp add: webhook_unsigned [OF assms] Response_def)
  qed
  have k: "\<forall>pe. server_key_or_empty e st pe =
          (case fault e Integration_secrets of
             Some err \<Rightarrow> []
           | None \<Rightarrow>
               (case filter (\<lambda>r. s_provider r = lit ''midtrans''
                                 \<and> s_name r = (if pe = Sandbox then lit ''server_key_sandbox''
                                               else lit ''server_key_production''))
                       (integration_secrets st) of
                  [r] \<Rightarrow> if s_iv r = Some (lit ''plain'')
                         then trim (String_or_empty (s_ciphertext r)) else []
                | _ \<Rightarrow> []))"
    by (simp only: server_key_or_empty_eq server_key_name_def simp_thms)
  from a p sb k show ?thesis
    using sha512Hex_lower_hex by blast
qed

lemma sample_keys:
  "server_key_or_empty sample_env (sample_store\<lparr>orders := os\<rparr>) Production = lit ''prod-key''"
  "server_key_or_empty sample_env (sample_store\<lparr>orders := os\<rparr>) Sandbox = lit ''sand-key''"
  "server_key_or_empty sample_env sample_store Production = lit ''prod-key''"
  "server_key_or_empty sample_env sample_store Sandbox = lit ''sand-key''"
  by (simp_all add: server_key_or_empty_eq server_key_name_def sample_env_def sample_store_def
      sample_secrets_def lit_def trim_def is_ws_def String_or_empty_def)

theorem signature_check_witness:
  "req_method (post (notification (lit ''ORD-1'') (lit ''sand-key'') (lit ''settlement'')))
     \<noteq> lit ''OPTIONS''
   \<and> truthy (SUPABASE_URL sample_env) \<and> truthy (SUPABASE_SERVICE_ROLE_KEY sample_env)
   \<and> trimmed (b_order_id (notification (lit ''ORD-1'') (lit ''sand-key'') (lit ''settlement'')))
       = lit ''ORD-1''
   \<and> trimmed (b_status_code (notification (lit ''ORD-1'') (lit ''sand-key'') (lit ''settlement'')))
       = lit ''200''
   \<and> trimmed (b_gross_amount (notification (lit ''ORD-1'') (lit ''sand-key'') (lit ''settlement'')))
       = lit ''10000.00''
   \<and> trimmed (b_signature_key (notification (lit ''ORD-1'') (lit ''sand-key'') (lit ''settlement'')))
       = lit ''1870''
   \<and> sha512Hex (digest sample_env) (lit ''ORD-1'' @ lit ''200'' @ lit ''10000.00'' @ lit ''prod-key'')
       = lit ''187f''
   \<and> sha512Hex (digest sample_env) (lit ''ORD-1'' @ lit ''200'' @ lit ''10000.00'' @ lit ''sand-key'')
       = lit ''1870''
   \<and> verified sample_env (post (notification (lit ''ORD-1'') (lit ''sand-key'') (lit ''settlement'')))
       sample_store (notification (lit ''ORD-1'') (lit ''sand-key'') (lit ''settlement'')) Sandbox
   \<and> status (fst (webhook sample_env
         (post (notification (lit ''ORD-1'') (lit ''sand-key'') (lit ''settlement'')))
         sample_store)) \<noteq> 401"
proof -
  let ?b = "notification (lit ''ORD-1'') (lit ''sand-key'') (lit ''settlement'')"
  have h: "req_method (post ?b) \<noteq> lit ''OPTIONS''" "truthy (SUPABASE_URL sample_env)"
    "truthy (SUPABASE_SERVICE_ROLE_KEY sample_env)" "req_json (post ?b) = Inr ?b"
    by (simp_all add: sample_defs js_defs)
  have f: "trimmed (b_order_id ?b) = lit ''ORD-1''" "trimmed (b_status_code ?b) = lit ''200''"
    "trimmed (b_gross_amount ?b) = lit ''10000.00''" "trimmed (b_signature_key ?b) = lit ''1870''"
    by (simp_all add: sample_defs js_defs)
  have n: "lit ''ORD-1'' \<noteq> []" "lit ''200'' \<noteq> []" "lit ''10000.00'' \<noteq> []" "lit ''1870'' \<noteq> []"
    "lit ''sand-key'' \<noteq> []" "lit ''prod-key'' \<noteq> []"
    by (simp_all add: lit_def)
  have d: "sha512Hex (digest sample_env)
             (lit ''ORD-1'' @ lit ''200'' @ lit ''10000.00'' @ lit ''prod-key'') = lit ''187f''"
    "sha512Hex (digest sample_env)
             (lit ''ORD-1'' @ lit ''200'' @ lit ''10000.00'' @ lit ''sand-key'') = lit ''1870''"
    "lit ''187f'' \<noteq> lit ''1870''"
    by (simp_all add: sample_defs js_defs)
  note t = signature_check [of "post ?b" sample_env ?b sample_store, unfolded f, OF h n(1-4)]
  from t have "verified sample_env (post ?b) sample_store ?b Sandbox"
    "status (fst (webhook sample_env (post ?b) sample_store)) \<noteq> 401"
    by (simp_all add: sample_keys d n)
  then show ?thesis
    using h f d by simp
qed

lemma dropWhile_head:
  assumes "xs \<noteq> []" "\<not> P (hd xs)"
  shows "dropWhile P xs = xs"
  using assms by (cases xs) simp_all

lemma hex_not_ws:
  assumes "c \<in> set (lit ''0123456789abcdef'')"
  shows "\<not> is_ws c"
  using assms by (auto simp: lit_def is_ws_def)

lemma trim_hex_line_feed:
  assumes "set h \<subseteq> set (lit ''0123456789abcdef'')" "h \<noteq> []"
  shows "trim (h @ [0xA]) = h"
proof -
  have "\<not> is_ws (hd (h @ [0xA]))"
    using assms hex_not_ws by (cases h) auto
  then have 1: "dropWhile is_ws (h @ [0xA]) = h @ [0xA]"
    by (intro dropWhile_head) simp_all
  have "hd (rev h) \<in> set h"
    using assms(2) by (simp add: hd_rev)
  then have "\<not> is_ws (hd (rev h))"
    using assms(1) hex_not_ws by blast
  then have 2: "dropWhile is_ws (rev h) = rev h"
    using assms(2) by (intro dropWhile_head) simp_all
  have "is_ws 0xA"
    by (simp add: is_ws_def)
  then show ?thesis
    by (simp add: trim_def 1 2)
qed

text \<open>
  Whatever the digest function: a \<open>signature_key\<close> field that is the digest followed
  by a line feed differs from the digest and verifies.
\<close>

lemma padded_signature_verifies:
  assumes "server_key_or_empty e st Production \<noteq> []"
    and "digest e (oid @ sc @ ga @ server_key_or_empty e st Production) \<noteq> []"
  shows "signature_env e st oid sc ga
           (trimmed (Some (sha512Hex (digest e)
                             (oid @ sc @ ga @ server_key_or_empty e st Production) @ [0xA])))
         = Some Production"
    and "sha512Hex (digest e) (oid @ sc @ ga @ server_key_or_empty e st Production) @ [0xA]
         \<noteq> sha512Hex (digest e) (oid @ sc @ ga @ server_key_or_empty e st Production)"
proof -
  let ?h = "sha512Hex (digest e) (oid @ sc @ ga @ server_key_or_empty e st Production)"
  have "length ?h \<noteq> 0"
    using assms(2) by (simp add: sha512Hex_lower_hex(1))
  then have "trim (?h @ [0xA]) = ?h"
    by (intro trim_hex_line_feed sha512Hex_lower_hex(2)) simp
  then show "signature_env e st oid sc ga (trimmed (Some (?h @ [0xA]))) = Some Production"
    using assms(1) by (simp add: signature_env_eq trimmed_def String_or_empty_def)
  show "?h @ [0xA] \<noteq> ?h"
    by simp
qed

text \<open>
  C1 as stated fails. A payload whose \<open>signature_key\<close> field is the digest followed by
  a line feed is accepted, though the digest is not equal to the field (here with the
  sample digest; \<open>padded_signature_verifies\<close> is the same fact for every digest
  function); and a payload signed with the key \<open>prod-key\<close> is accepted when the
  stored secret is that key between spaces, though the digest over the stored secret
  differs from the signature.
\<close>

theorem signature_check_counterexample:
  "b_signature_key ((notification (lit ''ORD-1'') (lit ''prod-key'') (lit ''settlement''))
       \<lparr>b_signature_key := Some (lit ''187f'' @ [0xA])\<rparr>) = Some (lit ''187f'' @ [0xA])
   \<and> sha512Hex (digest sample_env) (lit ''ORD-1'' @ lit ''200'' @ lit ''10000.00'' @ lit ''prod-key'')
       = lit ''187f''
   \<and> sha512Hex (digest sample_env) (lit ''ORD-1'' @ lit ''200'' @ lit ''10000.00'' @ lit ''sand-key'')
       = lit ''1870''
   \<and> lit ''187f'' \<noteq> lit ''187f'' @ [0xA] \<and> lit ''1870'' \<noteq> lit ''187f'' @ [0xA]
   \<and> fst (webhook sample_env
        (post ((notification (lit ''ORD-1'') (lit ''prod-key'') (lit ''settlement''))
                 \<lparr>b_signature_key := Some (lit ''187f'' @ [0xA])\<rparr>))
        sample_store) = Response 200 Json_ok
   \<and> b_signature_key (notification (lit ''ORD-1'') (lit ''prod-key'') (lit ''settlement''))
       = Some (lit ''187f'')
   \<and> sha512Hex (digest sample_env)
       (lit ''ORD-1'' @ lit ''200'' @ lit ''10000.00'' @ lit '' prod-key '') = lit ''1abf''
   \<and> lit ''1abf'' \<noteq> lit ''187f''
   \<and> fst (webhook sample_env
        (post (notification (lit ''ORD-1'') (lit ''prod-key'') (lit ''settlement'')))
        (sample_store\<lparr>integration_secrets :=
           [\<lparr>s_provider = lit ''midtrans'', s_name = lit ''server_key_production'',
             s_ciphertext = Some (lit '' prod-key ''), s_iv = Some (lit ''plain''),
             s_updated_at = None\<rparr>]\<rparr>)) = Response 200 Json_ok"
proof -
  let ?b = "notification (lit ''ORD-1'') (lit ''prod-key'') (lit ''settlement'')"
  let ?p = "?b\<lparr>b_signature_key := Some (lit ''187f'' @ [0xA])\<rparr>"
  let ?st = "sample_store\<lparr>integration_secrets :=
           [\<lparr>s_provider = lit ''midtrans'', s_name = lit ''server_key_production'',
             s_ciphertext = Some (lit '' prod-key ''), s_iv = Some (lit ''plain''),
             s_updated_at = None\<rparr>]\<rparr>"
  have d: "sha512Hex (digest sample_env)
             (lit ''ORD-1'' @ lit ''200'' @ lit ''10000.00'' @ lit ''prod-key'') = lit ''187f''"
    "sha512Hex (digest sample_env)
             (lit ''ORD-1'' @ lit ''200'' @ lit ''10000.00'' @ lit ''sand-key'') = lit ''1870''"
    "sha512Hex (digest sample_env)
             (lit ''ORD-1'' @ lit ''200'' @ lit ''10000.00'' @ lit '' prod-key '') = lit ''1abf''"
    "lit ''187f'' \<noteq> lit ''187f'' @ [0xA]" "lit ''1870'' \<noteq> lit ''187f'' @ [0xA]"
    "lit ''1abf'' \<noteq> lit ''187f''"
    "b_signature_key ?p = Some (lit ''187f'' @ [0xA])" "b_signature_key ?b = Some (lit ''187f'')"
    by (simp_all add: sample_defs js_defs)
  have v1: "verified sample_env (post ?p) sample_store ?p Production"
    by (simp add: sample_defs js_defs webhook_stage_defs)
  have l1: "lookup_order sample_env sample_store (trimmed (b_order_id ?p)) = Inr (Some sample_order)"
    by (simp add: sample_defs js_defs webhook_stage_defs)
  have v2: "verified sample_env (post ?b) ?st ?b Production"
    by (simp add: sample_defs js_defs webhook_stage_defs)
  have l2: "lookup_order sample_env ?st (trimmed (b_order_id ?b)) = Inr (Some sample_order)"
    by (simp add: sample_defs js_defs webhook_stage_defs)
  have c: "paid (trimmed_or_null (b_transaction_status ?p))"
    "paid (trimmed_or_null (b_transaction_status ?b))"
    "truthy (o_user_id sample_order)" "subscription_years sample_order = 2"
    "truthy (Some (lit ''pkg1''))"
    by (simp_all add: paid_def sample_defs js_defs subscription_years_def)
  have pk: "lookup_package sample_env (update_order pe b order ?st) = Inr (Some (lit ''pkg1''))"
    "lookup_package sample_env (update_order pe b order sample_store) = Inr (Some (lit ''pkg1''))"
    for pe b order
    by (simp_all add: lookup_package_def maybeSingle_def sample_env_def sample_store_def)
  have x: "setUTCMonth (Some (now sample_env)) (MonthFromTime (now sample_env) + 2 * 12)
             = Some 1856822400123"
    using sample_expiry c(4) by simp
  have r1: "fst (webhook sample_env (post ?p) sample_store) = Response 200 Json_ok"
    using x
    by (simp add: webhook_verified_response [OF v1 l1] activate_eq grant_package_eq c pk
        del: lookup_package_update_order)
  have r2: "fst (webhook sample_env (post ?b) ?st) = Response 200 Json_ok"
    using x
    by (simp add: webhook_verified_response [OF v2 l2] activate_eq grant_package_eq c pk
        del: lookup_package_update_order)
  from d r1 r2 show ?thesis
    by simp
qed

section \<open>The webhook: rejections and errors\<close>

text \<open>
  C6, as the code has it. For a request that is not a preflight, in a configured
  deployment: if the body cannot be read, the answer is 500 with the message of the
  error; if a field among \<open>order_id\<close>, \<open>status_code\<close>, \<open>gross_amount\<close> and
  \<open>signature_key\<close> is missing or empty after trimming, the answer is 400; if the
  signature verifies for no key that was loaded, also when loading both keys threw, the
  answer is 401; in these three cases the store is untouched. For a verified request, an error of
  the order lookup, an error of the package lookup and the RangeError of an expiry date
  out of range are answered 500 with the message that the catch takes from the error: its
  \<open>message\<close> when it is an instance of \<open>Error\<close>, its \<open>String\<close> rendering
  otherwise. An error thrown while a server key is loaded never reaches the catch.
\<close>

theorem webhook_rejections:
  assumes "req_method req \<noteq> lit ''OPTIONS''" "truthy (SUPABASE_URL e)"
    "truthy (SUPABASE_SERVICE_ROLE_KEY e)"
  shows "(\<forall>err. req_json req = Inl err \<longrightarrow>
            webhook e req st = (Response 500 (Json_error (caught_message err)), st))
    \<and> (\<forall>b. req_json req = Inr b \<longrightarrow>
          (b_order_id b = None \<or> b_status_code b = None \<or> b_gross_amount b = None
           \<or> b_signature_key b = None
           \<or> trimmed (b_order_id b) = [] \<or> trimmed (b_status_code b) = []
           \<or> trimmed (b_gross_amount b) = [] \<or> trimmed (b_signature_key b) = []) \<longrightarrow>
          webhook e req st = (Response 400 (Json_error (lit ''Invalid payload'')), st))
    \<and> (\<forall>b. req_json req = Inr b \<longrightarrow>
          trimmed (b_order_id b) \<noteq> [] \<and> trimmed (b_status_code b) \<noteq> []
          \<and> trimmed (b_gross_amount b) \<noteq> [] \<and> trimmed (b_signature_key b) \<noteq> [] \<longrightarrow>
          ((\<exists>e1 e2. getPlainServerKey e st Production = Inl e1
                   \<and> getPlainServerKey e st Sandbox = Inl e2)
           \<or> (\<forall>pe. server_key_or_empty e st pe = []
                  \<or> sha512Hex (digest e)
                      (trimmed (b_order_id b) @ trimmed (b_status_code b)
                       @ trimmed (b_gross_amount b) @ server_key_or_empty e st pe)
                    \<noteq> trimmed (b_signature_key b))) \<longrightarrow>
          webhook e req st = (Response 401 (Json_error (lit ''Invalid signature'')), st))
    \<and> (\<forall>b pe err. verified e req st b pe \<longrightarrow>
          lookup_order e st (trimmed (b_order_id b)) = Inl err \<longrightarrow>
          webhook e req st = (Response 500 (Json_error (caught_message err)), st))
    \<and> (\<forall>b pe order err. verified e req st b pe \<longrightarrow>
          lookup_order e st (trimmed (b_order_id b)) = Inr (Some order) \<longrightarrow>
          paid (trimmed_or_null (b_transaction_status b)) \<and> truthy (o_user_id order)
          \<and> subscription_years order > 0 \<longrightarrow>
          lookup_package e st = Inl err \<longrightarrow>
          webhook e req st =
            (Response 500 (Json_error (caught_message err)), update_order pe b order st))
    \<and> (\<forall>b pe order p. verified e req st b pe \<longrightarrow>
          lookup_order e st (trimmed (b_order_id b)) = Inr (Some order) \<longrightarrow>
          paid (trimmed_or_null (b_transaction_status b)) \<and> truthy (o_user_id order)
          \<and> subscription_years order > 0 \<longrightarrow>
          lookup_package e st = Inr p \<and> truthy p \<longrightarrow>
          setUTCMonth (Some (now e)) (MonthFromTime (now e) + subscription_years order * 12)
            = None \<longrightarrow>
          webhook e req st =
            (Response 500 (Json_error (lit ''Invalid time value'')), update_order pe b order st))
    \<and> (\<forall>err. caught_message err =
          (if instance_of_Error err then message err else to_String err))"
proof (intro conjI allI impI)
  fix err
  assume "req_json req = Inl err"
  then show "webhook e req st = (Response 500 (Json_error (caught_message err)), st)"
    using assms by (simp add: webhook_unreadable)
next
  fix b
  assume j: "req_json req = Inr b"
    and "b_order_id b = None \<or> b_status_code b = None \<or> b_gross_amount b = None
           \<or> b_signature_key b = None
           \<or> trimmed (b_order_id b) = [] \<or> trimmed (b_status_code b) = []
           \<or> trimmed (b_gross_amount b) = [] \<or> trimmed (b_signature_key b) = []"
  then have "trimmed (b_order_id b) = [] \<or> trimmed (b_status_code b) = []
     \<or> trimmed (b_gross_amount b) = [] \<or> trimmed (b_signature_key b) = []"
    using trimmed_missing by auto
  then show "webhook e req st = (Response 400 (Json_error (lit ''Invalid payload'')), st)"
    using assms j by (intro webhook_invalid_payload)
next
  fix b
  assume j: "req_json req = Inr b"
    and f: "trimmed (b_order_id b) \<noteq> [] \<and> trimmed (b_status_code b) \<noteq> []
          \<and> trimmed (b_gross_amount b) \<noteq> [] \<and> trimmed (b_signature_key b) \<noteq> []"
    and n: "(\<exists>e1 e2. getPlainServerKey e st Production = Inl e1
                   \<and> getPlainServerKey e st Sandbox = Inl e2)
           \<or> (\<forall>pe. server_key_or_empty e st pe = []
                  \<or> sha512Hex (digest e)
                      (trimmed (b_order_id b) @ trimmed (b_status_code b)
                       @ trimmed (b_gross_amount b) @ server_key_or_empty e st pe)
                    \<noteq> trimmed (b_signature_key b))"
  have "signature_env e st (trimmed (b_order_id b)) (trimmed (b_status_code b))
       (trimmed (b_gross_amount b)) (trimmed (b_signature_key b)) = None"
  proof (cases "\<exists>e1 e2. getPlainServerKey e st Production = Inl e1
                   \<and> getPlainServerKey e st Sandbox = Inl e2")
    case True
    then show ?thesis
      by (auto simp: signature_env_no_keys)
  next
    case False
    with n have a: "server_key_or_empty e st pe = []
        \<or> sha512Hex (digest e)
              (trimmed (b_order_id b) @ trimmed (b_status_code b)
               @ trimmed (b_gross_amount b) @ server_key_or_empty e st pe)
            \<noteq> trimmed (b_signature_key b)" for pe
      by blast
    from a [of Production] a [of Sandbox] show ?thesis
      by (auto simp: signature_env_eq)
  qed
  then show "webhook e req st = (Response 401 (Json_error (lit ''Invalid signature'')), st)"
    using assms j f by (intro webhook_unsigned) simp_all
next
  fix b pe err
  assume "verified e req st b pe" "lookup_order e st (trimmed (b_order_id b)) = Inl err"
  then show "webhook e req st = (Response 500 (Json_error (caught_message err)), st)"
    by (simp add: webhook_verified)
next
  fix b pe order err
  assume "verified e req st b pe" "lookup_order e st (trimmed (b_order_id b)) = Inr (Some order)"
    "paid (trimmed_or_null (b_transaction_status b)) \<and> truthy (o_user_id order)
          \<and> subscription_years order > 0"
    "lookup_package e st = Inl err"
  then show "webhook e req st =
            (Response 500 (Json_error (caught_message err)), update_order pe b order st)"
    by (simp add: webhook_verified activate_eq)
next
  fix b pe order p
  assume "verified e req st b pe" "lookup_order e st (trimmed (b_order_id b)) = Inr (Some order)"
    "paid (trimmed_or_null (b_transaction_status b)) \<and> truthy (o_user_id order)
          \<and> subscription_years order > 0"
    "lookup_package e st = Inr p \<and> truthy p"
    "setUTCMonth (Some (now e)) (MonthFromTime (now e) + subscription_years order * 12) = None"
  then show "webhook e req st =
            (Response 500 (Json_error (lit ''Invalid time value'')), update_order pe b order st)"
    by (simp add: webhook_verified activate_eq grant_package_eq caught_message_def
        invalid_time_value_def)
next
  fix err
  show "caught_message err = (if instance_of_Error err then message err else to_String err)"
    by (simp add: caught_message_def)
qed

theorem webhook_rejections_witness:
  "req_method (post ((notification (lit ''ORD-1'') (lit ''prod-key'') (lit ''settlement''))
       \<lparr>b_status_code := Some (lit ''  '')\<rparr>)) \<noteq> lit ''OPTIONS''
   \<and> truthy (SUPABASE_URL sample_env) \<and> truthy (SUPABASE_SERVICE_ROLE_KEY sample_env)
   \<and> trimmed (b_status_code ((notification (lit ''ORD-1'') (lit ''prod-key'') (lit ''settlement''))
       \<lparr>b_status_code := Some (lit ''  '')\<rparr>)) = []
   \<and> webhook sample_env
       (post ((notification (lit ''ORD-1'') (lit ''prod-key'') (lit ''settlement''))
          \<lparr>b_status_code := Some (lit ''  '')\<rparr>)) sample_store
     = (Response 400 (Json_error (lit ''Invalid payload'')), sample_store)
   \<and> webhook sample_env
       \<lparr>req_method = lit ''POST'', req_authorization = None,
        req_json = Inl (Thrown True (lit ''Unexpected end of JSON input'')
                          (lit ''SyntaxError: Unexpected end of JSON input''))\<rparr> sample_store
     = (Response 500 (Json_error (lit ''Unexpected end of JSON input'')), sample_store)"
proof -
  let ?b = "(notification (lit ''ORD-1'') (lit ''prod-key'') (lit ''settlement''))
       \<lparr>b_status_code := Some (lit ''  '')\<rparr>"
  let ?err = "Thrown True (lit ''Unexpected end of JSON input'')
                          (lit ''SyntaxError: Unexpected end of JSON input'')"
  let ?r = "\<lparr>req_method = lit ''POST'', req_authorization = None, req_json = Inl ?err\<rparr>
              :: webhook_body request"
  have h: "req_method (post ?b) \<noteq> lit ''OPTIONS''" "truthy (SUPABASE_URL sample_env)"
    "truthy (SUPABASE_SERVICE_ROLE_KEY sample_env)" "req_json (post ?b) = Inr ?b"
    "req_method ?r \<noteq> lit ''OPTIONS''" "req_json ?r = Inl ?err"
    by (simp_all add: sample_defs js_defs)
  have t: "trimmed (b_status_code ?b) = []"
    by (simp add: sample_defs js_defs)
  have m: "caught_message ?err = lit ''Unexpected end of JSON input''"
    by (simp add: caught_message_def)
  from webhook_rejections [OF h(1,2,3), of sample_store] h(4) t
  have 1: "webhook sample_env (post ?b) sample_store
     = (Response 400 (Json_error (lit ''Invalid payload'')), sample_store)"
    by blast
  from webhook_rejections [OF h(5) h(2,3), of sample_store] h(6)
  have 2: "webhook sample_env ?r sample_store
     = (Response 500 (Json_error (caught_message ?err)), sample_store)"
    by blast
  from 1 2 h t m show ?thesis
    by simp
qed

text \<open>
  C6 as stated fails. With only the sandbox key stored, loading the production key throws
  the error \<open>Missing server_key_production\<close> during processing; it is swallowed, and a
  notification signed with the sandbox key is answered 200. With no key stored both loads
  throw and the answer is the 401, not a 500.
\<close>

theorem webhook_rejections_counterexample:
  "getPlainServerKey sample_env (sample_store\<lparr>integration_secrets := tl sample_secrets\<rparr>) Production
     = Inl (new_Error (lit ''Missing server_key_production''))
   \<and> fst (webhook sample_env
        (post (notification (lit ''ORD-1'') (lit ''sand-key'') (lit ''deny'')))
        (sample_store\<lparr>integration_secrets := tl sample_secrets\<rparr>)) = Response 200 Json_ok
   \<and> getPlainServerKey sample_env (sample_store\<lparr>integration_secrets := []\<rparr>) Production
     = Inl (new_Error (lit ''Missing server_key_production''))
   \<and> getPlainServerKey sample_env (sample_store\<lparr>integration_secrets := []\<rparr>) Sandbox
     = Inl (new_Error (lit ''Missing server_key_sandbox''))
   \<and> webhook sample_env
        (post (notification (lit ''ORD-1'') (lit ''sand-key'') (lit ''deny'')))
        (sample_store\<lparr>integration_secrets := []\<rparr>)
     = (Response 401 (Json_error (lit ''Invalid signature'')),
        sample_store\<lparr>integration_secrets := []\<rparr>)"
proof -
  let ?b = "notification (lit ''ORD-1'') (lit ''sand-key'') (lit ''deny'')"
  let ?s1 = "sample_store\<lparr>integration_secrets := tl sample_secrets\<rparr>"
  let ?s0 = "sample_store\<lparr>integration_secrets := []\<rparr>"
  have g: "getPlainServerKey sample_env ?s1 Production
             = Inl (new_Error (lit ''Missing server_key_production''))"
    "getPlainServerKey sample_env ?s0 Production
             = Inl (new_Error (lit ''Missing server_key_production''))"
    "getPlainServerKey sample_env ?s0 Sandbox
             = Inl (new_Error (lit ''Missing server_key_sandbox''))"
    by (simp_all add: getPlainServerKey_def maybeSingle_def server_key_name_def sample_defs js_defs)
  have v: "verified sample_env (post ?b) ?s1 ?b Sandbox"
    by (simp add: sample_defs js_defs webhook_stage_defs)
  have l: "lookup_order sample_env ?s1 (trimmed (b_order_id ?b)) = Inr (Some sample_order)"
    by (simp add: sample_defs js_defs webhook_stage_defs)
  have n: "\<not> paid (trimmed_or_null (b_transaction_status ?b))"
    by (simp add: paid_def sample_defs js_defs)
  have r: "fst (webhook sample_env (post ?b) ?s1) = Response 200 Json_ok"
    by (simp add: webhook_verified_response [OF v l] activate_eq n)
  have h: "req_method (post ?b) \<noteq> lit ''OPTIONS''" "truthy (SUPABASE_URL sample_env)"
    "truthy (SUPABASE_SERVICE_ROLE_KEY sample_env)" "req_json (post ?b) = Inr ?b"
    "trimmed (b_order_id ?b) \<noteq> []" "trimmed (b_status_code ?b) \<noteq> []"
    "trimmed (b_gross_amount ?b) \<noteq> []" "trimmed (b_signature_key ?b) \<noteq> []"
    by (simp_all add: sample_defs js_defs)
  have w: "webhook sample_env (post ?b) ?s0
             = (Response 401 (Json_error (lit ''Invalid signature'')), ?s0)"
    using h by (intro webhook_unsigned signature_env_no_keys [OF g(2,3)])
  from g r w show ?thesis
    by simp
qed

section \<open>The Xendit secret: validation of the key\<close>

lemma validate_cases:
  "validateXenditSecretKey input =
     (if trimmed input \<noteq> [] \<and> \<not> has_ws (trimmed input) \<and> 8 \<le> length (trimmed input)
         \<and> length (trimmed input) \<le> 256 \<and> startsWith (trimmed input) (lit ''xnd_'')
         \<and> \<not> startsWith (trimmed input) (lit ''xnd_public_'')
      then Valid (trimmed input)
      else Invalid
        (if trimmed input = [] then lit ''api_key is required''
         else if has_ws (trimmed input) \<or> length (trimmed input) < 8 \<or> length (trimmed input) > 256
         then lit ''Invalid api_key format''
         else if \<not> startsWith (trimmed input) (lit ''xnd_'')
         then lit ''Invalid Xendit key. Use a key that starts with '' @ [0x27] @ lit ''xnd_'' @ [0x27]
         else lit ''Invalid Xendit key for server-side usage. Please paste the Xendit *Secret* API Key (xnd_development_... / xnd_production_...), not the public key.''))"
  by (auto simp: validateXenditSecretKey_def Let_def)

lemma xendit_secret_granted:
  assumes "req_method req \<noteq> lit ''OPTIONS''" "truthy (SUPABASE_URL e)"
    "truthy (SUPABASE_ANON_KEY e)" "truthy (SUPABASE_SERVICE_ROLE_KEY e)"
    "super_admin_request e req st"
  shows "xendit_secret e req st =
     (case secret_action e req st of
        (Inl err, st') \<Rightarrow> (Response 500 (Json_error (caught_message err)), st')
      | (Inr r, st') \<Rightarrow> (r, st'))"
  using assms
  by (auto simp: xendit_secret_def xendit_secret_try_def super_admin_request_def
      split: option.splits authz.splits)

lemma upsert_xendit_key_rows:
  "\<exists>r \<in> set (upsert_xendit_key k rows). is_xendit_key r"
  "\<forall>r \<in> set (upsert_xendit_key k rows).
     is_xendit_key r \<longrightarrow> s_ciphertext r = Some k \<and> s_iv r = Some (lit ''plain'')"
  "filter (\<lambda>r. \<not> is_xendit_key r) (upsert_xendit_key k rows)
     = filter (\<lambda>r. \<not> is_xendit_key r) rows"
proof -
  have m: "is_xendit_key (r\<lparr>s_ciphertext := c, s_iv := i\<rparr>) = is_xendit_key r" for r c i
    by (simp add: is_xendit_key_def)
  show "\<exists>r \<in> set (upsert_xendit_key k rows). is_xendit_key r"
  proof (cases "list_ex is_xendit_key rows")
    case True
    then obtain r where r: "r \<in> set rows" "is_xendit_key r"
      by (auto simp: list_ex_iff)
    then have "r\<lparr>s_ciphertext := Some k, s_iv := Some (lit ''plain'')\<rparr>
        \<in> set (upsert_xendit_key k rows)"
      using True by (force simp: upsert_xendit_key_def)
    then show ?thesis
      using r(2) m by blast
  next
    case False
    then show ?thesis
      by (simp add: upsert_xendit_key_def is_xendit_key_def)
  qed
  show "\<forall>r \<in> set (upsert_xendit_key k rows).
     is_xendit_key r \<longrightarrow> s_ciphertext r = Some k \<and> s_iv r = Some (lit ''plain'')"
    by (auto simp: upsert_xendit_key_def list_ex_iff m)
  show "filter (\<lambda>r. \<not> is_xendit_key r) (upsert_xendit_key k rows)
     = filter (\<lambda>r. \<not> is_xendit_key r) rows"
  proof -
    have "filter (\<lambda>r. \<not> is_xendit_key r)
            (map (\<lambda>r. if is_xendit_key r
                      then r\<lparr>s_ciphertext := Some k, s_iv := Some (lit ''plain'')\<rparr>
                      else r) xs)
          = filter (\<lambda>r. \<not> is_xendit_key r) xs" for xs
      by (induction xs) (simp_all add: m)
    moreover have "is_xendit_key \<lparr>s_provider = lit ''xendit'', s_name = lit ''api_key'',
                     s_ciphertext = Some k, s_iv = Some (lit ''plain''),
                     s_updated_at = None\<rparr>"
      by (simp add: is_xendit_key_def)
    ultimately show ?thesis
      by (simp add: upsert_xendit_key_def)
  qed
qed

text \<open>
  C9. \<open>validateXenditSecretKey\<close> accepts its input exactly when the input, trimmed, is
  non-empty, has no whitespace character, has between 8 and 256 code units, starts with
  \<open>xnd_\<close> and does not start with \<open>xnd_public_\<close>; the key it returns is the trimmed
  input, and the error of a rejection is a non-empty message. On the \<open>set\<close> action of
  an authorised request the handler stores that key: afterwards \<open>integration_secrets\<close>
  has a row of provider \<open>xendit\<close> and name \<open>api_key\<close>, every such row holds the
  trimmed input as \<open>ciphertext\<close> with \<open>iv = plain\<close>, and the other rows are as
  before; a rejected key is answered 400 with the error and the store is untouched.
\<close>

theorem validateXenditSecretKey_accepts:
  "(validateXenditSecretKey input = Valid k \<longleftrightarrow>
      k = trimmed input \<and> k \<noteq> [] \<and> \<not> (\<exists>c \<in> set k. is_ws c) \<and> 8 \<le> length k
      \<and> length k \<le> 256 \<and> startsWith k (lit ''xnd_'') \<and> \<not> startsWith k (lit ''xnd_public_''))
   \<and> (\<forall>err. validateXenditSecretKey input = Invalid err \<longrightarrow> err \<noteq> [])
   \<and> (\<forall>e req st b.
         req_method req \<noteq> lit ''OPTIONS'' \<and> truthy (SUPABASE_URL e)
         \<and> truthy (SUPABASE_ANON_KEY e) \<and> truthy (SUPABASE_SERVICE_ROLE_KEY e)
         \<and> super_admin_request e req st \<and> req_json req = Inr b
         \<and> action b = Some (lit ''set'') \<and> api_key b = input
         \<and> fault e Integration_secrets = None \<longrightarrow>
         (case validateXenditSecretKey input of
            Valid key \<Rightarrow>
              key = trimmed input
              \<and> fst (xendit_secret e req st) = Response 200 Json_ok
              \<and> (\<exists>r \<in> set (integration_secrets (snd (xendit_secret e req st))). is_xendit_key r)
              \<and> (\<forall>r \<in> set (integration_secrets (snd (xendit_secret e req st))).
                    is_xendit_key r \<longrightarrow>
                    s_ciphertext r = Some (trimmed input) \<and> s_iv r = Some (lit ''plain''))
              \<and> filter (\<lambda>r. \<not> is_xendit_key r) (integration_secrets (snd (xendit_secret e req st)))
                  = filter (\<lambda>r. \<not> is_xendit_key r) (integration_secrets st)
          | Invalid err \<Rightarrow> xendit_secret e req st = (Response 400 (Json_error err), st)))"
proof (intro conjI allI impI)
  show "validateXenditSecretKey input = Valid k \<longleftrightarrow>
      k = trimmed input \<and> k \<noteq> [] \<and> \<not> (\<exists>c \<in> set k. is_ws c) \<and> 8 \<le> length k
      \<and> length k \<le> 256 \<and> startsWith k (lit ''xnd_'') \<and> \<not> startsWith k (lit ''xnd_public_'')"
    by (auto simp: validate_cases has_ws_def list_ex_iff)
next
  fix err
  assume "validateXenditSecretKey input = Invalid err"
  then show "err \<noteq> []"
    by (auto simp: validate_cases lit_def split: if_splits)
next
  fix e req st b
  assume a: "req_method req \<noteq> lit ''OPTIONS'' \<and> truthy (SUPABASE_URL e)
         \<and> truthy (SUPABASE_ANON_KEY e) \<and> truthy (SUPABASE_SERVICE_ROLE_KEY e)
         \<and> super_admin_request e req st \<and> req_json req = Inr b
         \<and> action b = Some (lit ''set'') \<and> api_key b = input
         \<and> fault e Integration_secrets = None"
  have n: "lit ''set'' \<noteq> lit ''get''"
    by (simp add: lit_def)
  have x: "xendit_secret e req st =
     (case validateXenditSecretKey input of
        Invalid err \<Rightarrow> (Response 400 (Json_error err), st)
      | Valid key \<Rightarrow>
          (Response 200 Json_ok,
           st\<lparr>integration_secrets := upsert_xendit_key key (integration_secrets st)\<rparr>))"
    using a n by (simp add: xendit_secret_granted secret_action_def split: validation.splits)
  show "case validateXenditSecretKey input of
            Valid key \<Rightarrow>
              key = trimmed input
              \<and> fst (xendit_secret e req st) = Response 200 Json_ok
              \<and> (\<exists>r \<in> set (integration_secrets (snd (xendit_secret e req st))). is_xendit_key r)
              \<and> (\<forall>r \<in> set (integration_secrets (snd (xendit_secret e req st))).
                    is_xendit_key r \<longrightarrow>
                    s_ciphertext r = Some (trimmed input) \<and> s_iv r = Some (lit ''plain''))
              \<and> filter (\<lambda>r. \<not> is_xendit_key r) (integration_secrets (snd (xendit_secret e req st)))
                  = filter (\<lambda>r. \<not> is_xendit_key r) (integration_secrets st)
          | Invalid err \<Rightarrow> xendit_secret e req st = (Response 400 (Json_error err), st)"
  proof (cases "validateXenditSecretKey input")
    case (Invalid err)
    then show ?thesis
      by (simp add: x)
  next
    case (Valid key)
    then have "key = trimmed input"
      by (simp add: validate_cases split: if_splits)
    then show ?thesis
      using Valid upsert_xendit_key_rows [of key "integration_secrets st"]
      by (simp add: x)
  qed
qed


lemma sample_callers:
  "caller sample_env (bearer (lit ''root-token'') b) = Some (lit ''u-root'')"
  "caller sample_env (bearer (lit ''user-token'') b) = Some (lit ''u1'')"
  "caller sample_env (post b) = None"
  by (simp_all add: caller_def bearer_token_def startsWith_def bearer_def post_def
      sample_env_def lit_def String_or_empty_def truthy_def)

lemma sample_root:
  "super_admin_request sample_env (bearer (lit ''root-token'') b) sample_store"
proof -
  have "requireSuperAdmin sample_env sample_store (lit ''u-root'') = Granted (lit ''u-root'')"
    by (simp add: requireSuperAdmin_def maybeSingle_def sample_env_def sample_store_def lit_def)
  then show ?thesis
    by (simp add: super_admin_request_def sample_callers)
qed

theorem validateXenditSecretKey_accepts_witness:
  "validateXenditSecretKey (Some (lit ''  xnd_development_abc ''))
     = Valid (lit ''xnd_development_abc'')
   \<and> super_admin_request sample_env
       (bearer (lit ''root-token'')
          \<lparr>action = Some (lit ''set''), api_key = Some (lit ''  xnd_development_abc '')\<rparr>)
       sample_store
   \<and> fst (xendit_secret sample_env
       (bearer (lit ''root-token'')
          \<lparr>action = Some (lit ''set''), api_key = Some (lit ''  xnd_development_abc '')\<rparr>)
       sample_store) = Response 200 Json_ok
   \<and> list_ex (\<lambda>r. is_xendit_key r \<and> s_ciphertext r = Some (lit ''xnd_development_abc''))
       (integration_secrets (snd (xendit_secret sample_env
          (bearer (lit ''root-token'')
             \<lparr>action = Some (lit ''set''), api_key = Some (lit ''  xnd_development_abc '')\<rparr>)
          sample_store)))"
proof -
  let ?input = "Some (lit ''  xnd_development_abc '')"
  let ?b = "\<lparr>action = Some (lit ''set''), api_key = ?input\<rparr>"
  let ?r = "bearer (lit ''root-token'') ?b"
  note t = validateXenditSecretKey_accepts [of ?input "lit ''xnd_development_abc''"]
  have k: "lit ''xnd_development_abc'' = trimmed ?input"
    "lit ''xnd_development_abc'' \<noteq> []"
    "\<not> (\<exists>c \<in> set (lit ''xnd_development_abc''). is_ws c)"
    "8 \<le> length (lit ''xnd_development_abc'')" "length (lit ''xnd_development_abc'') \<le> 256"
    "startsWith (lit ''xnd_development_abc'') (lit ''xnd_'')"
    "\<not> startsWith (lit ''xnd_development_abc'') (lit ''xnd_public_'')"
    by (simp_all add: js_defs startsWith_def)
  from t k have v: "validateXenditSecretKey ?input = Valid (lit ''xnd_development_abc'')"
    by blast
  have h: "req_method ?r \<noteq> lit ''OPTIONS'' \<and> truthy (SUPABASE_URL sample_env)
         \<and> truthy (SUPABASE_ANON_KEY sample_env) \<and> truthy (SUPABASE_SERVICE_ROLE_KEY sample_env)
         \<and> super_admin_request sample_env ?r sample_store \<and> req_json ?r = Inr ?b
         \<and> action ?b = Some (lit ''set'') \<and> api_key ?b = ?input
         \<and> fault sample_env Integration_secrets = None"
    using sample_root [of ?b] by (simp add: bearer_def sample_env_def js_defs)
  from t [THEN conjunct2, THEN conjunct2, rule_format, OF h]
  have "fst (xendit_secret sample_env ?r sample_store) = Response 200 Json_ok"
    "list_ex (\<lambda>r. is_xendit_key r \<and> s_ciphertext r = Some (lit ''xnd_development_abc''))
       (integration_secrets (snd (xendit_secret sample_env ?r sample_store)))"
    unfolding v using k(1) by (auto simp: list_ex_iff)
  then show ?thesis
    using v sample_root [of ?b] by simp
qed

section \<open>The Xendit secret: who reaches the store\<close>

lemma xendit_secret_denied:
  assumes "\<not> super_admin_request e req st"
  shows "xendit_secret e req st =
     (if req_method req = lit ''OPTIONS'' then Response 200 (Text (lit ''ok''))
      else if \<not> truthy (SUPABASE_URL e) \<or> \<not> truthy (SUPABASE_ANON_KEY e)
              \<or> \<not> truthy (SUPABASE_SERVICE_ROLE_KEY e)
      then Response 500
             (Json_error
                (lit ''Missing SUPABASE_URL / SUPABASE_ANON_KEY / SUPABASE_SERVICE_ROLE_KEY''))
      else case caller e req of
             None \<Rightarrow> Response 401 (Json_error (lit ''Unauthorized''))
           | Some userId \<Rightarrow>
               (case maybeSingle e User_roles
                       (filter (\<lambda>r. r_user_id r = userId) (user_roles st)) of
                  Inl roleErr \<Rightarrow> Response 500 (Json_error (message roleErr))
                | Inr roleRow \<Rightarrow> Response 403 (Json_error (lit ''Forbidden''))),
      st)"
  using assms
  by (auto simp: xendit_secret_def xendit_secret_try_def super_admin_request_def
      requireSuperAdmin_def split: option.splits sum.splits)

lemma super_admin_request_secrets [simp]:
  "super_admin_request e req (st\<lparr>integration_secrets := secrets\<rparr>) = super_admin_request e req st"
  by (simp add: super_admin_request_def requireSuperAdmin_def split: option.splits)

lemma caller_Some:
  "caller e req = Some userId \<longleftrightarrow>
     (\<exists>token. req_authorization req = Some (lit ''Bearer '' @ token) \<and> token \<noteq> []
        \<and> getClaims e token = Claims (Some userId) \<and> userId \<noteq> [])"
proof -
  have l: "length (lit ''Bearer '') = 7"
    by (simp add: lit_def)
  have "bearer_token h = Some token \<longleftrightarrow> h = Some (lit ''Bearer '' @ token)" for h token
  proof (cases h)
    case None
    then show ?thesis
      by (simp add: bearer_token_def startsWith_def String_or_empty_def l) (simp add: lit_def)
  next
    case (Some a)
    have "take 7 a = lit ''Bearer '' \<and> drop 7 a = token \<longleftrightarrow> a = lit ''Bearer '' @ token"
      using l by (metis append_eq_conv_conj append_take_drop_id)
    then show ?thesis
      using Some by (auto simp: bearer_token_def startsWith_def String_or_empty_def l)
  qed
  then have bt: "\<And>token. bearer_token (req_authorization req) = Some token \<longleftrightarrow>
      req_authorization req = Some (lit ''Bearer '' @ token)"
    by blast
  have "caller e req = Some userId \<longleftrightarrow>
     (\<exists>token. bearer_token (req_authorization req) = Some token \<and> token \<noteq> []
        \<and> getClaims e token = Claims (Some userId) \<and> userId \<noteq> [])"
  proof (cases "bearer_token (req_authorization req)")
    case None
    then show ?thesis
      by (simp add: caller_def truthy_def)
  next
    case (Some token)
    then show ?thesis
      by (cases "getClaims e token")
         (auto simp: caller_def truthy_def String_or_empty_def Let_def split: option.splits)
  qed
  then show ?thesis
    unfolding bt .
qed

lemma requireSuperAdmin_Granted:
  "requireSuperAdmin e st userId = Granted uid \<longleftrightarrow>
     uid = userId \<and> fault e User_roles = None
     \<and> (\<exists>r. filter (\<lambda>r. r_user_id r = userId) (user_roles st) = [r]
            \<and> r_role r = lit ''super_admin'')"
  by (auto simp: requireSuperAdmin_def maybeSingle_def split: option.splits list.splits)

text \<open>
  C10, as the code has it. A request passes the checks when its Authorization header is
  \<open>Bearer\<close> followed by a non-empty token whose claims resolve to a non-empty user id,
  and the single \<open>user_roles\<close> row of that user has the role \<open>super_admin\<close>. For every
  request that does not pass, the store is unchanged, the answer does not depend on
  \<open>integration_secrets\<close>, and the answer is: 200 \<open>ok\<close> for a preflight, 500 for a
  deployment that is not configured, 401 when no user id is resolved, 500 with the
  lookup's message when the lookup of the role fails, and 403 otherwise.
\<close>

theorem secrets_guarded:
  "(super_admin_request e req st \<longleftrightarrow>
      (\<exists>token userId r.
         req_authorization req = Some (lit ''Bearer '' @ token) \<and> token \<noteq> []
         \<and> getClaims e token = Claims (Some userId) \<and> userId \<noteq> []
         \<and> fault e User_roles = None
         \<and> filter (\<lambda>r. r_user_id r = userId) (user_roles st) = [r]
         \<and> r_role r = lit ''super_admin''))
   \<and> (\<not> super_admin_request e req st \<longrightarrow>
        snd (xendit_secret e req st) = st
        \<and> (\<forall>secrets. fst (xendit_secret e req (st\<lparr>integration_secrets := secrets\<rparr>))
              = fst (xendit_secret e req st))
        \<and> fst (xendit_secret e req st) =
            (if req_method req = lit ''OPTIONS'' then Response 200 (Text (lit ''ok''))
             else if \<not> truthy (SUPABASE_URL e) \<or> \<not> truthy (SUPABASE_ANON_KEY e)
                     \<or> \<not> truthy (SUPABASE_SERVICE_ROLE_KEY e)
             then Response 500
                    (Json_error
                       (lit ''Missing SUPABASE_URL / SUPABASE_ANON_KEY / SUPABASE_SERVICE_ROLE_KEY''))
             else case caller e req of
                    None \<Rightarrow> Response 401 (Json_error (lit ''Unauthorized''))
                  | Some userId \<Rightarrow>
                      (case maybeSingle e User_roles
                              (filter (\<lambda>r. r_user_id r = userId) (user_roles st)) of
                         Inl roleErr \<Rightarrow> Response 500 (Json_error (message roleErr))
                       | Inr roleRow \<Rightarrow> Response 403 (Json_error (lit ''Forbidden'')))))"
proof (intro conjI impI allI)
  show "super_admin_request e req st \<longleftrightarrow>
      (\<exists>token userId r.
         req_authorization req = Some (lit ''Bearer '' @ token) \<and> token \<noteq> []
         \<and> getClaims e token = Claims (Some userId) \<and> userId \<noteq> []
         \<and> fault e User_roles = None
         \<and> filter (\<lambda>r. r_user_id r = userId) (user_roles st) = [r]
         \<and> r_role r = lit ''super_admin'')"
  proof (cases "caller e req")
    case None
    then have "\<not> (\<exists>userId. caller e req = Some userId)"
      by simp
    then show ?thesis
      unfolding caller_Some using None by (simp add: super_admin_request_def) blast
  next
    case (Some uid)
    then have "\<And>token userId. req_authorization req = Some (lit ''Bearer '' @ token) \<and> token \<noteq> []
        \<and> getClaims e token = Claims (Some userId) \<and> userId \<noteq> [] \<Longrightarrow> userId = uid"
      using caller_Some [of e req] by (metis option.inject)
    moreover from Some obtain token where "req_authorization req = Some (lit ''Bearer '' @ token)"
      "token \<noteq> []" "getClaims e token = Claims (Some uid)" "uid \<noteq> []"
      unfolding caller_Some by blast
    ultimately show ?thesis
      using Some by (auto simp: super_admin_request_def requireSuperAdmin_Granted)
  qed
next
  assume n: "\<not> super_admin_request e req st"
  show "snd (xendit_secret e req st) = st"
    by (simp add: xendit_secret_denied [OF n])
  show "fst (xendit_secret e req st) =
            (if req_method req = lit ''OPTIONS'' then Response 200 (Text (lit ''ok''))
             else if \<not> truthy (SUPABASE_URL e) \<or> \<not> truthy (SUPABASE_ANON_KEY e)
                     \<or> \<not> truthy (SUPABASE_SERVICE_ROLE_KEY e)
             then Response 500
                    (Json_error
                       (lit ''Missing SUPABASE_URL / SUPABASE_ANON_KEY / SUPABASE_SERVICE_ROLE_KEY''))
             else case caller e req of
                    None \<Rightarrow> Response 401 (Json_error (lit ''Unauthorized''))
                  | Some userId \<Rightarrow>
                      (case maybeSingle e User_roles
                              (filter (\<lambda>r. r_user_id r = userId) (user_roles st)) of
                         Inl roleErr \<Rightarrow> Response 500 (Json_error (message roleErr))
                       | Inr roleRow \<Rightarrow> Response 403 (Json_error (lit ''Forbidden''))))"
    by (simp add: xendit_secret_denied [OF n])
  fix secrets
  have "\<not> super_admin_request e req (st\<lparr>integration_secrets := secrets\<rparr>)"
    using n by simp
  then show "fst (xendit_secret e req (st\<lparr>integration_secrets := secrets\<rparr>))
              = fst (xendit_secret e req st)"
    by (simp add: xendit_secret_denied [OF n] xendit_secret_denied
        cong: option.case_cong if_cong)
qed


lemma sample_customer:
  "\<not> super_admin_request sample_env (bearer (lit ''user-token'') b) sample_store"
proof -
  have "requireSuperAdmin sample_env sample_store (lit ''u1'') = Denied 403 (lit ''Forbidden'')"
    by (simp add: requireSuperAdmin_def maybeSingle_def sample_env_def sample_store_def lit_def)
  then show ?thesis
    by (simp add: super_admin_request_def sample_callers)
qed

theorem secrets_guarded_witness:
  "\<not> super_admin_request sample_env
       (bearer (lit ''user-token'') \<lparr>action = Some (lit ''clear''), api_key = None\<rparr>)
       sample_store
   \<and> xendit_secret sample_env
       (bearer (lit ''user-token'') \<lparr>action = Some (lit ''clear''), api_key = None\<rparr>)
       sample_store
     = (Response 403 (Json_error (lit ''Forbidden'')), sample_store)
   \<and> \<not> super_admin_request sample_env
       (post \<lparr>action = Some (lit ''get''), api_key = None\<rparr>) sample_store
   \<and> xendit_secret sample_env (post \<lparr>action = Some (lit ''get''), api_key = None\<rparr>) sample_store
     = (Response 401 (Json_error (lit ''Unauthorized'')), sample_store)"
proof -
  let ?c = "bearer (lit ''user-token'') \<lparr>action = Some (lit ''clear''), api_key = None\<rparr>"
  let ?g = "post \<lparr>action = Some (lit ''get''), api_key = None\<rparr> :: secret_body request"
  have n: "\<not> super_admin_request sample_env ?g sample_store"
    by (simp add: super_admin_request_def sample_callers)
  have h: "req_method ?c \<noteq> lit ''OPTIONS''" "req_method ?g \<noteq> lit ''OPTIONS''"
    "truthy (SUPABASE_URL sample_env)" "truthy (SUPABASE_ANON_KEY sample_env)"
    "truthy (SUPABASE_SERVICE_ROLE_KEY sample_env)"
    by (simp_all add: bearer_def post_def sample_env_def js_defs)
  have r: "maybeSingle sample_env User_roles
             (filter (\<lambda>r. r_user_id r = lit ''u1'') (user_roles sample_store))
           = Inr (Some \<lparr>r_user_id = lit ''u1'', r_role = lit ''customer''\<rparr>)"
    by (simp add: maybeSingle_def sample_env_def sample_store_def lit_def)
  from secrets_guarded [of sample_env ?c sample_store, THEN conjunct2, rule_format,
      OF sample_customer]
  have 1: "xendit_secret sample_env ?c sample_store
     = (Response 403 (Json_error (lit ''Forbidden'')), sample_store)"
    using h by (simp add: sample_callers r prod_eq_iff)
  from secrets_guarded [of sample_env ?g sample_store, THEN conjunct2, rule_format, OF n]
  have 2: "xendit_secret sample_env ?g sample_store
     = (Response 401 (Json_error (lit ''Unauthorized'')), sample_store)"
    using h by (simp add: sample_callers prod_eq_iff)
  from 1 2 n sample_customer show ?thesis
    by simp
qed

text \<open>
  C10 as stated fails: when the lookup in \<open>user_roles\<close> fails, a request with a valid
  token does not pass the checks and is answered 500, neither 401 nor 403; and a preflight
  request, which presents no token, is answered 200.
\<close>

theorem secrets_guarded_counterexample:
  "\<not> super_admin_request
       (sample_env\<lparr>fault := (\<lambda>t. if t = User_roles
                                 then Some (Thrown False (lit ''connection lost'')
                                              (lit ''[object Object]''))
                                 else None)\<rparr>)
       (bearer (lit ''root-token'') \<lparr>action = Some (lit ''get''), api_key = None\<rparr>) sample_store
   \<and> xendit_secret
       (sample_env\<lparr>fault := (\<lambda>t. if t = User_roles
                                 then Some (Thrown False (lit ''connection lost'')
                                              (lit ''[object Object]''))
                                 else None)\<rparr>)
       (bearer (lit ''root-token'') \<lparr>action = Some (lit ''get''), api_key = None\<rparr>) sample_store
     = (Response 500 (Json_error (lit ''connection lost'')), sample_store)
   \<and> \<not> super_admin_request sample_env
       \<lparr>req_method = lit ''OPTIONS'', req_authorization = None,
        req_json = Inr \<lparr>action = None, api_key = None\<rparr>\<rparr> sample_store
   \<and> xendit_secret sample_env
       \<lparr>req_method = lit ''OPTIONS'', req_authorization = None,
        req_json = Inr \<lparr>action = None, api_key = None\<rparr>\<rparr> sample_store
     = (Response 200 (Text (lit ''ok'')), sample_store)"
proof -
  let ?e = "sample_env\<lparr>fault := (\<lambda>t. if t = User_roles
                                 then Some (Thrown False (lit ''connection lost'')
                                              (lit ''[object Object]''))
                                 else None)\<rparr>"
  let ?r = "bearer (lit ''root-token'') \<lparr>action = Some (lit ''get''), api_key = None\<rparr>"
  let ?o = "\<lparr>req_method = lit ''OPTIONS'', req_authorization = None,
        req_json = Inr \<lparr>action = None, api_key = None\<rparr>\<rparr> :: secret_body request"
  have c: "caller ?e ?r = Some (lit ''u-root'')" "caller sample_env ?o = None"
    by (simp_all add: caller_def bearer_token_def startsWith_def bearer_def
      sample_env_def lit_def String_or_empty_def truthy_def)
  have q: "requireSuperAdmin ?e sample_store (lit ''u-root'') = Denied 500 (lit ''connection lost'')"
    by (simp add: requireSuperAdmin_def maybeSingle_def)
  have n: "\<not> super_admin_request ?e ?r sample_store" "\<not> super_admin_request sample_env ?o sample_store"
    by (simp_all add: super_admin_request_def c q)
  have m: "maybeSingle ?e User_roles rows
             = Inl (Thrown False (lit ''connection lost'') (lit ''[object Object]''))" for rows :: "role_row list"
    by (simp add: maybeSingle_def)
  have h: "req_method ?r \<noteq> lit ''OPTIONS''" "truthy (SUPABASE_URL ?e)"
    "truthy (SUPABASE_ANON_KEY ?e)" "truthy (SUPABASE_SERVICE_ROLE_KEY ?e)"
    by (simp_all add: bearer_def sample_env_def js_defs)
  have 1: "xendit_secret ?e ?r sample_store
     = (Response 500 (Json_error (lit ''connection lost'')), sample_store)"
    using h by (simp add: xendit_secret_denied [OF n(1)] c m)
  have 2: "xendit_secret sample_env ?o sample_store = (Response 200 (Text (lit ''ok'')), sample_store)"
    by (simp add: xendit_secret_def)
  from 1 2 n show ?thesis
    by simp
qed

section \<open>The hook: its timeouts\<close>

lemma clear_current_ok:
  assumes "timers_ok h"
  shows "timeouts (clear_current h) = []" "next_timeout (clear_current h) = next_timeout h"
    "mounted (clear_current h) = mounted h" "state (clear_current h) = state h"
    "invocations (clear_current h) = invocations h"
  using assms
  by (auto simp: timers_ok_def clear_current_def clearTimeout_def split: option.splits)

lemma run_cleanup_ok:
  assumes "timers_ok h"
  shows "timeouts (run_cleanup h) = []" "next_timeout (run_cleanup h) = next_timeout h"
    "mounted (run_cleanup h) = mounted h" "state (run_cleanup h) = state h"
    "invocations (run_cleanup h) = invocations h" "timers_ok (run_cleanup h)"
  using assms clear_current_ok [OF assms]
  by (auto simp: run_cleanup_def timers_ok_def)

lemma effect_ok:
  assumes "timers_ok h" "timeouts h = []" "mounted h"
  shows "timers_ok (effect query enabled debounceMs h)"
  using assms
  by (auto simp: effect_def timers_ok_def setState_def clear_current_def clearTimeout_def Let_def
      split: option.splits)

lemma step_ok:
  assumes "timers_ok h"
  shows "timers_ok (step ev h)"
proof (cases ev)
  case (Render query enabled debounceMs)
  show ?thesis
  proof (cases "\<not> mounted h \<or> deps h = Some (debounceMs, enabled, query)")
    case True
    then show ?thesis
      using assms Render by (auto simp: step_def)
  next
    case False
    let ?h = "(run_cleanup h)\<lparr>deps := Some (debounceMs, enabled, query)\<rparr>"
    have "timers_ok ?h" "timeouts ?h = []" "mounted ?h"
      using run_cleanup_ok [OF assms] False by (simp_all add: timers_ok_def)
    then have "timers_ok (effect query enabled debounceMs ?h)"
      by (rule effect_ok)
    then show ?thesis
      using False Render by (simp add: step_def)
  qed
next
  case (Fire i)
  then show ?thesis
    using assms
    by (auto simp: step_def timers_ok_def callback_def setState_def clearTimeout_def
        split: option.splits if_splits)
next
  case (Settle k r)
  then show ?thesis
    using assms by (auto simp: step_def timers_ok_def setState_def)
next
  case Unmount
  then show ?thesis
    using assms run_cleanup_ok [OF assms] by (auto simp: step_def timers_ok_def)
qed

lemma run_snoc: "run (evs @ [ev]) = step ev (run evs)"
  by (simp add: run_def)

lemma run_ok: "timers_ok (run evs)"
proof (induction evs rule: rev_induct)
  case Nil
  then show ?case
    by (simp add: run_def mount_def timers_ok_def)
next
  case (snoc ev evs)
  then show ?case
    by (simp add: run_snoc step_ok)
qed


lemma render_changed:
  assumes "timers_ok h" "mounted h" "deps h \<noteq> Some (debounceMs, enabled, query)"
  shows "timeouts (step (Render query enabled debounceMs) h) =
           (if enabled \<and> trimmed query \<noteq> [] then [(next_timeout h, trimmed query)] else [])"
    and "invocations (step (Render query enabled debounceMs) h) = invocations h"
    and "state (step (Render query enabled debounceMs) h) =
           (if enabled \<and> trimmed query = [] then initial_State else state h)"
proof -
  let ?h = "(run_cleanup h)\<lparr>deps := Some (debounceMs, enabled, query)\<rparr>"
  have s: "step (Render query enabled debounceMs) h = effect query enabled debounceMs ?h"
    using assms by (simp add: step_def)
  have c: "timeouts ?h = []" "next_timeout ?h = next_timeout h" "mounted ?h"
    "state ?h = state h" "invocations ?h = invocations h"
    using run_cleanup_ok [OF assms(1)] assms(2) by simp_all
  have cc: "timeouts (clear_current ((run_cleanup h)\<lparr>deps := d\<rparr>)) = []"
    "next_timeout (clear_current ((run_cleanup h)\<lparr>deps := d\<rparr>)) = next_timeout h"
    "state (clear_current ((run_cleanup h)\<lparr>deps := d\<rparr>)) = state h"
    "invocations (clear_current ((run_cleanup h)\<lparr>deps := d\<rparr>)) = invocations h" for d
    using run_cleanup_ok [OF assms(1)]
    by (auto simp: clear_current_def clearTimeout_def split: option.splits)
  show "timeouts (step (Render query enabled debounceMs) h) =
           (if enabled \<and> trimmed query \<noteq> [] then [(next_timeout h, trimmed query)] else [])"
    unfolding s using c cc by (simp add: effect_def setState_def Let_def)
  show "invocations (step (Render query enabled debounceMs) h) = invocations h"
    unfolding s using c cc by (simp add: effect_def setState_def Let_def)
  show "state (step (Render query enabled debounceMs) h) =
           (if enabled \<and> trimmed query = [] then initial_State else state h)"
    unfolding s using c cc by (simp add: effect_def setState_def Let_def)
qed

lemma effect_clears_stored:
  assumes "timers_ok h" "trimmed query \<noteq> []"
  shows "timeouts (effect query True debounceMs h) = [(next_timeout h, trimmed query)]"
  using assms clear_current_ok [OF assms(1)]
  by (simp add: effect_def Let_def)

text \<open>
  C8, as the code has it. In every state the hook reaches, at most one timeout is armed,
  and it is the one \<open>timer.current\<close> holds. The body of the effect, when it schedules,
  clears the stored timeout first: afterwards only the new one is armed. The cleanup
  clears the armed timeout, on unmount and before the effect runs again because
  \<open>query\<close>, \<open>enabled\<close> or \<open>debounceMs\<close> changed. When the effect runs again with
  \<open>enabled\<close> true and a query that is empty after trimming, the state is reset to
  \<open>{loading: false, error: null, items: []}\<close>, no timeout is armed and no call is
  made; with \<open>enabled\<close> false the state stays as it is.
\<close>

theorem at_most_one_timer:
  "length (timeouts (run evs)) \<le> 1
   \<and> (\<forall>t \<in> set (timeouts (run evs)). timer_current (run evs) = Some (fst t))
   \<and> (\<forall>query debounceMs. trimmed query \<noteq> [] \<longrightarrow>
        timeouts (effect query True debounceMs (run evs))
          = [(next_timeout (run evs), trimmed query)])
   \<and> timeouts (run_cleanup (run evs)) = []
   \<and> timeouts (step Unmount (run evs)) = []
   \<and> (\<forall>query enabled debounceMs.
        mounted (run evs) \<and> deps (run evs) \<noteq> Some (debounceMs, enabled, query) \<longrightarrow>
        timeouts (step (Render query enabled debounceMs) (run evs))
          = (if enabled \<and> trimmed query \<noteq> [] then [(next_timeout (run evs), trimmed query)]
             else [])
        \<and> invocations (step (Render query enabled debounceMs) (run evs)) = invocations (run evs)
        \<and> state (step (Render query enabled debounceMs) (run evs))
          = (if enabled \<and> trimmed query = [] then initial_State else state (run evs)))"
proof -
  note ok = run_ok [of evs]
  have 1: "length (timeouts (run evs)) \<le> 1"
    "\<forall>t \<in> set (timeouts (run evs)). timer_current (run evs) = Some (fst t)"
    using ok by (auto simp: timers_ok_def)
  have 2: "timeouts (step Unmount (run evs)) = []"
    using ok run_cleanup_ok(1) [OF ok] by (auto simp: step_def timers_ok_def)
  from 1 2 show ?thesis
    using effect_clears_stored [OF ok] run_cleanup_ok(1) [OF ok] render_changed [OF ok]
    by simp
qed

lemma sample_run:
  "run [Render (Some (lit ''a'')) True 450] =
     (mount\<lparr>timer_current := Some 1, timeouts := [(1, lit ''a'')], next_timeout := 2,
            cleanup := True, deps := Some (450, True, Some (lit ''a''))\<rparr> :: int hook)"
  "run [Render (Some (lit ''a'')) True 450, Fire 1] =
     (mount\<lparr>state := \<lparr>loading = True, error = None, items = []\<rparr>,
            timer_current := Some 1, next_timeout := 2, invocations := [lit ''a''],
            cleanup := True, deps := Some (450, True, Some (lit ''a''))\<rparr> :: int hook)"
  by (simp_all add: run_def step_def effect_def run_cleanup_def clear_current_def
      clearTimeout_def callback_def setState_def mount_def initial_State_def js_defs
      Let_def)

theorem at_most_one_timer_witness:
  "mounted (run [Render (Some (lit ''a'')) True 450] :: int hook)
   \<and> deps (run [Render (Some (lit ''a'')) True 450] :: int hook)
       \<noteq> Some (450, True, Some (lit ''ab''))
   \<and> trimmed (Some (lit ''ab'')) = lit ''ab''
   \<and> timeouts (run [Render (Some (lit ''a'')) True 450] :: int hook) = [(1, lit ''a'')]
   \<and> timeouts (step (Render (Some (lit ''ab'')) True 450)
        (run [Render (Some (lit ''a'')) True 450] :: int hook)) = [(2, lit ''ab'')]
   \<and> deps (run [Render (Some (lit ''a'')) True 450] :: int hook)
       \<noteq> Some (450, True, Some (lit '' ''))
   \<and> trimmed (Some (lit '' '')) = []
   \<and> timeouts (step (Render (Some (lit '' '')) True 450)
        (run [Render (Some (lit ''a'')) True 450] :: int hook)) = []
   \<and> state (step (Render (Some (lit '' '')) True 450)
        (run [Render (Some (lit ''a'')) True 450, Fire 1] :: int hook)) = initial_State"
proof -
  let ?h = "run [Render (Some (lit ''a'')) True 450] :: int hook"
  let ?f = "run [Render (Some (lit ''a'')) True 450, Fire 1] :: int hook"
  have ne: "lit ''a'' \<noteq> lit ''ab''" "lit ''a'' \<noteq> lit '' ''"
    by (simp_all add: lit_def)
  have m: "mounted ?h" "deps ?h \<noteq> Some (450, True, Some (lit ''ab''))"
    "deps ?h \<noteq> Some (450, True, Some (lit '' ''))" "next_timeout ?h = 2"
    "timeouts ?h = [(1, lit ''a'')]"
    "mounted ?f" "deps ?f \<noteq> Some (450, True, Some (lit '' ''))"
    unfolding sample_run by (simp_all add: mount_def ne)
  have t: "trimmed (Some (lit ''ab'')) = lit ''ab''" "trimmed (Some (lit '' '')) = []"
    "lit ''ab'' \<noteq> []"
    by (simp_all add: js_defs)
  note w = at_most_one_timer [of "[Render (Some (lit ''a'')) True 450] :: int event list",
      THEN conjunct2, THEN conjunct2, THEN conjunct2, THEN conjunct2, THEN conjunct2, rule_format]
  note w' = at_most_one_timer [of "[Render (Some (lit ''a'')) True 450, Fire 1] :: int event list",
      THEN conjunct2, THEN conjunct2, THEN conjunct2, THEN conjunct2, THEN conjunct2, rule_format]
  from w [where query = "Some (lit ''ab'')" and enabled = True and debounceMs = 450] m t
  have 1: "timeouts (step (Render (Some (lit ''ab'')) True 450) ?h) = [(2, lit ''ab'')]"
    by simp
  from w [where query = "Some (lit '' '')" and enabled = True and debounceMs = 450] m t
  have 2: "timeouts (step (Render (Some (lit '' '')) True 450) ?h) = []"
    by simp
  from w' [where query = "Some (lit '' '')" and enabled = True and debounceMs = 450] m t
  have 3: "state (step (Render (Some (lit '' '')) True 450) ?f) = initial_State"
    by simp
  from 1 2 3 m t show ?thesis
    by simp
qed

text \<open>
  C8 as stated fails: with \<open>enabled\<close> false, a query that is empty after trimming does
  not reset the state. After a first query whose timeout fired, the state is loading;
  the next render, disabled and with a blank query, leaves it loading.
\<close>

theorem at_most_one_timer_counterexample:
  "trimmed (Some (lit '' '')) = []
   \<and> state (run [Render (Some (lit ''a'')) True 450, Fire 1, Render (Some (lit '' '')) False 450]
        :: int hook) = \<lparr>loading = True, error = None, items = []\<rparr>
   \<and> (initial_State :: int State) = \<lparr>loading = False, error = None, items = []\<rparr>"
proof -
  have "run [Render (Some (lit ''a'')) True 450, Fire 1, Render (Some (lit '' '')) False 450]
      = step (Render (Some (lit '' '')) False 450)
          (run [Render (Some (lit ''a'')) True 450, Fire 1] :: int hook)"
    using run_snoc [of "[Render (Some (lit ''a'')) True 450, Fire 1]"] by simp
  then have "state (run [Render (Some (lit ''a'')) True 450, Fire 1,
        Render (Some (lit '' '')) False 450] :: int hook)
      = \<lparr>loading = True, error = None, items = []\<rparr>"
    unfolding sample_run
    by (simp add: step_def effect_def run_cleanup_def clear_current_def
        clearTimeout_def mount_def)
  then show ?thesis
    by (simp add: initial_State_def js_defs)
qed

end
